theory Spec2Isabelle
  imports Complex_Main
begin

section \<open>Data model of the OpenCSG preview renderer\<close>

text \<open>
  The embedding follows \<^verbatim>\<open>src/glview/preview/OpenCSGRenderer.cc\<close>. The renderer talks to an
  OpenGL context and to collaborators whose code is in other files (the boolean compositor
  \<^verbatim>\<open>OpenCSG::render\<close>, \<^verbatim>\<open>render_surface\<close>, \<^verbatim>\<open>setColor\<close>, \<^verbatim>\<open>VertexState::draw\<close>, ...). Every
  such call is an entry of a trace, in program order; a function of the renderer returns the
  list of calls it makes. Values returned by collaborators are parameters (record \<open>env\<close>).

  Floats are read as reals: the only float operation of this file that decides control flow is
  the comparison \<^verbatim>\<open>color[3] == 1.0f\<close>.
\<close>

type_synonym Transform3d = "real list"

type_synonym csgmode_e = int

datatype Color4f = Color4f real real real real

text \<open>\<^verbatim>\<open>color[3]\<close>\<close>

fun alpha :: "Color4f \<Rightarrow> real" where
  "alpha (Color4f r g b a) = a"

text \<open>
  A geometry is a \<^verbatim>\<open>PolySet\<close> or an object of another class derived from \<^verbatim>\<open>Geometry\<close>. The
  first field is what \<^verbatim>\<open>getConvexity()\<close> returns, the second one stands for the polygons.
\<close>

datatype Geometry = PolySet nat nat | OtherGeometry nat

fun getConvexity :: "Geometry \<Rightarrow> nat" where
  "getConvexity (PolySet cv k) = cv"
| "getConvexity (OtherGeometry cv) = cv"

text \<open>\<^verbatim>\<open>dynamic_cast<const PolySet *>(geom.get())\<close>: null for a null pointer and for another class.\<close>

fun as_PolySet :: "Geometry option \<Rightarrow> Geometry option" where
  "as_PolySet (Some (PolySet cv k)) = Some (PolySet cv k)"
| "as_PolySet (Some (OtherGeometry cv)) = None"
| "as_PolySet None = None"

record CSGLeaf =
  geom :: "Geometry option"
  matrix :: Transform3d
  color :: Color4f
  index :: nat

record CSGChainObject =
  leaf :: CSGLeaf

record CSGProduct =
  intersections :: "CSGChainObject list"
  subtractions :: "CSGChainObject list"

record CSGProducts =
  products :: "CSGProduct list"

datatype OpenSCADOperator = INTERSECTION | DIFFERENCE

datatype ColorMode = NONE | MATERIAL | CUTOUT | HIGHLIGHT | BACKGROUND

datatype Operation = Intersection | Subtraction

datatype shader_type_t = EDGE_RENDERING | SELECT_RENDERING | OTHER_RENDERING

record shaderinfo_t =
  progid :: nat
  shader_type :: shader_type_t
  select_identifier :: int

subsection \<open>OpenGL calls and vertex states\<close>

datatype GLenum =
    GL_CULL_FACE | GL_FRONT | GL_BACK | GL_EQUAL | GL_LEQUAL
  | GL_ARRAY_BUFFER | GL_ELEMENT_ARRAY_BUFFER

text \<open>
  The OpenGL calls this file makes itself. \<open>glOther\<close> is any call made by a callback that a
  collaborator attached to a vertex state (vertex pointers, client state).
\<close>

datatype gl_call =
    glEnable GLenum
  | glDisable GLenum
  | glCullFace GLenum
  | glDepthFunc GLenum
  | glUseProgram nat
  | glUniform3f int real real real
  | glPushMatrix
  | glMultMatrixd Transform3d
  | glPopMatrix
  | glBindBuffer GLenum nat
  | glGenBuffers nat
  | glOther nat

text \<open>
  The dynamic class of a vertex state: the base class, \<^verbatim>\<open>OpenCSGVertexState\<close> (which carries
  \<^verbatim>\<open>csgObjectIndex\<close>) or \<^verbatim>\<open>VBOShaderVertexState\<close>.
\<close>

datatype VertexState_class = VertexState_base | OpenCSGVertexState nat | VBOShaderVertexState

record VertexState =
  vs_class :: VertexState_class
  drawMode :: nat
  drawSize :: nat
  drawType :: nat
  drawOffset :: nat
  elementOffset :: nat
  verticesVBO :: nat
  elementsVBO :: nat
  glBegin :: "gl_call list"
  glEnd :: "gl_call list"

text \<open>
  A primitive handed to the compositor: \<^verbatim>\<open>OpenCSGPrim\<close> (operation, convexity, \<^verbatim>\<open>geom\<close>, \<^verbatim>\<open>m\<close>,
  \<^verbatim>\<open>csgmode\<close>) or \<^verbatim>\<open>OpenCSGVBOPrim\<close> (operation, convexity, \<^verbatim>\<open>vertex_state\<close>).
\<close>

datatype Primitive =
    OpenCSGPrim Operation nat "Geometry option" Transform3d csgmode_e
  | OpenCSGVBOPrim Operation nat "VertexState option"

text \<open>A call to the OpenGL context or to a collaborator.\<close>

datatype event =
    GL gl_call
  | Call_OpenCSG_render "Primitive list"
  | Call_render_surface Geometry csgmode_e Transform3d "shaderinfo_t option"
  | Call_setColor ColorMode Color4f "shaderinfo_t option"
  | Call_VertexState_draw VertexState
  | Draw_call VertexState
  | Call_shader_attribs_enable
  | Call_shader_attribs_disable
  | Call_addSurfaceData
  | Call_writeSurface
  | Call_add_shader_data
  | Call_initializeSize nat
  | Call_addColor Color4f
  | Call_create_surface Geometry csgmode_e Transform3d Color4f
  | Call_createInterleavedVBOs

text \<open>
  What the collaborators return. \<open>get_csgmode\<close> takes \<open>None\<close> where the source leaves the third
  argument to its default. \<open>getShaderColor mode c out\<close> returns the flag of the source and the
  value of the reference parameter after the call, \<open>out\<close> being its value before. \<open>create_surface\<close>
  returns the vertex states that the call appends to the container of the vertex array (its
  second argument is the container before the call). \<open>default_Color4f\<close> is a
  default-constructed \<^verbatim>\<open>Color4f\<close>.
\<close>

record env =
  get_csgmode :: "bool \<Rightarrow> bool \<Rightarrow> OpenSCADOperator option \<Rightarrow> csgmode_e"
  getShaderColor :: "ColorMode \<Rightarrow> Color4f \<Rightarrow> Color4f \<Rightarrow> bool \<times> Color4f"
  setColor :: "ColorMode \<Rightarrow> Color4f \<Rightarrow> shaderinfo_t option \<Rightarrow> Color4f"
  create_surface :: "Geometry \<Rightarrow> VertexState option list \<Rightarrow> csgmode_e \<Rightarrow> Transform3d
                      \<Rightarrow> Color4f \<Rightarrow> VertexState option list"
  getSurfaceBufferSize :: "CSGChainObject \<Rightarrow> bool \<Rightarrow> bool \<Rightarrow> OpenSCADOperator \<Rightarrow> nat"
  getShader :: shaderinfo_t
  default_Color4f :: Color4f

record features =
  ExperimentalVxORenderers :: bool
  ExperimentalVxORenderersIndexing :: bool
  ExperimentalVxORenderersDirect :: bool
  ExperimentalVxORenderersPrealloc :: bool

text \<open>
  An abort of the program: a failed \<^verbatim>\<open>assert\<close>, or an operation the language leaves undefined
  (\<^verbatim>\<open>back()\<close> of an empty vector, an iterator range beyond the end).
\<close>

datatype error = AssertionFailed string | UndefinedBehaviour

record OpenCSGVBOProduct =
  primitives :: "Primitive list"
  states :: "VertexState option list"

text \<open>
  The renderer object; \<open>all_vbos\<close> is the member \<^verbatim>\<open>all_vbos_\<close>. \<open>gl_buffers_generated\<close> belongs
  to the OpenGL context: the number of buffer names it has handed out; \<^verbatim>\<open>glGenBuffers\<close>
  returns the next unused ones.
\<close>

record OpenCSGRenderer =
  root_products :: "CSGProducts option"
  highlights_products :: "CSGProducts option"
  background_products :: "CSGProducts option"
  all_vbos :: "nat list"
  vbo_vertex_products :: "OpenCSGVBOProduct list"
  gl_buffers_generated :: nat

section \<open>The immediate path\<close>

text \<open>\<^verbatim>\<open>OpenCSGPrim::render\<close> and \<^verbatim>\<open>OpenCSGVBOPrim::render\<close>\<close>

fun Primitive_render :: "Primitive \<Rightarrow> event list" where
  "Primitive_render (OpenCSGPrim operation convexity (Some g) m csgmode) =
     [GL glPushMatrix, GL (glMultMatrixd m), Call_render_surface g csgmode m None, GL glPopMatrix]"
| "Primitive_render (OpenCSGPrim operation convexity None m csgmode) = []"
| "Primitive_render (OpenCSGVBOPrim operation convexity (Some vs)) = [Call_VertexState_draw vs]"
| "Primitive_render (OpenCSGVBOPrim operation convexity None) = []"

text \<open>
  \<^verbatim>\<open>createCSGPrimitive\<close>; \<open>g\<close> is \<^verbatim>\<open>*csgobj.leaf->geom\<close>, which both call sites have tested to be
  non-null.
\<close>

definition createCSGPrimitive ::
  "env \<Rightarrow> CSGChainObject \<Rightarrow> Geometry \<Rightarrow> Operation \<Rightarrow> bool \<Rightarrow> bool \<Rightarrow> OpenSCADOperator \<Rightarrow> Primitive"
where
  "createCSGPrimitive e csgobj g operation highlight_mode background_mode type =
     OpenCSGPrim operation (getConvexity g) (as_PolySet (Some g)) (matrix (leaf csgobj))
       (get_csgmode e highlight_mode background_mode (Some type))"

text \<open>The two loops that fill \<^verbatim>\<open>primitives\<close> (lines 341 to 347).\<close>

definition immediate_primitives :: "env \<Rightarrow> bool \<Rightarrow> bool \<Rightarrow> CSGProduct \<Rightarrow> Primitive list" where
  "immediate_primitives e highlight_mode background_mode product =
     concat (map (\<lambda>csgobj. case geom (leaf csgobj) of
                    None \<Rightarrow> []
                  | Some g \<Rightarrow> [createCSGPrimitive e csgobj g Intersection
                                highlight_mode background_mode INTERSECTION])
               (intersections product))
     @ concat (map (\<lambda>csgobj. case geom (leaf csgobj) of
                    None \<Rightarrow> []
                  | Some g \<Rightarrow> [createCSGPrimitive e csgobj g Subtraction
                                highlight_mode background_mode DIFFERENCE])
               (subtractions product))"

text \<open>The three bytes of an identifier, each divided by \<^verbatim>\<open>255.0f\<close>.\<close>

definition select_uniform :: "shaderinfo_t \<Rightarrow> nat \<Rightarrow> event" where
  "select_uniform s identifier =
     GL (glUniform3f (select_identifier s)
          (real (identifier mod 256) / 255)
          (real ((identifier div 256) mod 256) / 255)
          (real ((identifier div 65536) mod 256) / 255))"

text \<open>
  The choice of the colour mode, which the source writes out in each of its four loops over
  leaves; \<open>normal\<close> is \<^verbatim>\<open>MATERIAL\<close> for an intersection and \<^verbatim>\<open>CUTOUT\<close> for a subtraction.
\<close>

definition leaf_colormode :: "bool \<Rightarrow> bool \<Rightarrow> ColorMode \<Rightarrow> ColorMode" where
  "leaf_colormode highlight_mode background_mode normal =
     (if highlight_mode then HIGHLIGHT else if background_mode then BACKGROUND else normal)"

text \<open>The body of the loop over \<^verbatim>\<open>product.intersections\<close> (lines 359 to 400).\<close>

definition render_intersection ::
  "env \<Rightarrow> shaderinfo_t option \<Rightarrow> bool \<Rightarrow> bool \<Rightarrow> CSGChainObject \<Rightarrow> event list"
where
  "render_intersection e shaderinfo highlight_mode background_mode csgobj =
     (case as_PolySet (geom (leaf csgobj)) of
        None \<Rightarrow> []
      | Some ps \<Rightarrow>
          (let c = color (leaf csgobj);
               csgmode = get_csgmode e highlight_mode background_mode None;
               colormode = leaf_colormode highlight_mode background_mode MATERIAL;
               col = setColor e colormode c shaderinfo;
               surface = Call_render_surface ps csgmode (matrix (leaf csgobj)) shaderinfo
           in (case shaderinfo of
                 None \<Rightarrow> []
               | Some s \<Rightarrow> if shader_type s = SELECT_RENDERING
                           then [select_uniform s (index (leaf csgobj))] else [])
              @ [GL glPushMatrix, GL (glMultMatrixd (matrix (leaf csgobj))),
                 Call_setColor colormode c shaderinfo]
              @ (if alpha col = 1 then [surface]
                 else [GL (glEnable GL_CULL_FACE), GL (glCullFace GL_FRONT), surface,
                       GL (glCullFace GL_BACK), surface, GL (glDisable GL_CULL_FACE)])
              @ [GL glPopMatrix]))"

text \<open>The body of the loop over \<^verbatim>\<open>product.subtractions\<close> (lines 401 to 427).\<close>

definition render_subtraction ::
  "env \<Rightarrow> shaderinfo_t option \<Rightarrow> bool \<Rightarrow> bool \<Rightarrow> CSGChainObject \<Rightarrow> event list"
where
  "render_subtraction e shaderinfo highlight_mode background_mode csgobj =
     (case as_PolySet (geom (leaf csgobj)) of
        None \<Rightarrow> []
      | Some ps \<Rightarrow>
          (let c = color (leaf csgobj);
               csgmode = get_csgmode e highlight_mode background_mode (Some DIFFERENCE);
               colormode = leaf_colormode highlight_mode background_mode CUTOUT
           in [Call_setColor colormode c shaderinfo,
               GL glPushMatrix, GL (glMultMatrixd (matrix (leaf csgobj))),
               GL (glEnable GL_CULL_FACE), GL (glCullFace GL_FRONT),
               Call_render_surface ps csgmode (matrix (leaf csgobj)) shaderinfo,
               GL (glDisable GL_CULL_FACE),
               GL glPopMatrix]))"

text \<open>One iteration of the loop over \<^verbatim>\<open>products->products\<close> (lines 340 to 432).\<close>

definition render_product_immediate ::
  "env \<Rightarrow> bool \<Rightarrow> shaderinfo_t option \<Rightarrow> bool \<Rightarrow> bool \<Rightarrow> CSGProduct \<Rightarrow> event list"
where
  "render_product_immediate e showedges shaderinfo highlight_mode background_mode product =
     (let prims = immediate_primitives e highlight_mode background_mode product
      in (if length prims > 1
          then [Call_OpenCSG_render prims, GL (glDepthFunc GL_EQUAL)] else [])
         @ (case shaderinfo of
              None \<Rightarrow> []
            | Some s \<Rightarrow>
                if progid s \<noteq> 0
                then (if shader_type s \<noteq> EDGE_RENDERING
                         \<or> (shader_type s = EDGE_RENDERING \<and> showedges)
                      then [GL (glUseProgram (progid s))] else [])
                else [])
         @ concat (map (render_intersection e shaderinfo highlight_mode background_mode)
                     (intersections product))
         @ concat (map (render_subtraction e shaderinfo highlight_mode background_mode)
                     (subtractions product))
         @ (case shaderinfo of None \<Rightarrow> [] | Some s \<Rightarrow> [GL (glUseProgram 0)])
         @ [GL (glDepthFunc GL_LEQUAL)])"

section \<open>The buffer path: replay\<close>

text \<open>The body of the loop over \<^verbatim>\<open>product->states()\<close> (lines 450 to 470).\<close>

definition draw_state :: "bool \<Rightarrow> shaderinfo_t option \<Rightarrow> VertexState option \<Rightarrow> event list" where
  "draw_state showedges shaderinfo vsp =
     (case vsp of
        None \<Rightarrow> []
      | Some vs \<Rightarrow>
          (case vs_class vs of
             OpenCSGVertexState csgObjectIndex \<Rightarrow>
               (case shaderinfo of
                  None \<Rightarrow> []
                | Some s \<Rightarrow> if shader_type s = SELECT_RENDERING
                            then [select_uniform s csgObjectIndex] else [])
           | _ \<Rightarrow> [])
          @ (if vs_class vs \<noteq> VBOShaderVertexState
                \<or> (showedges \<and> vs_class vs = VBOShaderVertexState)
             then [Call_VertexState_draw vs] else []))"

text \<open>One iteration of the loop over \<^verbatim>\<open>vbo_vertex_products\<close> (lines 434 to 482).\<close>

definition render_product_vbo ::
  "bool \<Rightarrow> shaderinfo_t option \<Rightarrow> OpenCSGVBOProduct \<Rightarrow> event list"
where
  "render_product_vbo showedges shaderinfo product =
     (if length (primitives product) > 1
      then [Call_OpenCSG_render (primitives product), GL (glDepthFunc GL_EQUAL)] else [])
     @ (case shaderinfo of
          None \<Rightarrow> []
        | Some s \<Rightarrow>
            if progid s \<noteq> 0
            then GL (glUseProgram (progid s))
                 # (if shader_type s = EDGE_RENDERING \<and> showedges
                    then [Call_shader_attribs_enable] else [])
            else [])
     @ concat (map (draw_state showedges shaderinfo) (states product))
     @ (case shaderinfo of
          None \<Rightarrow> []
        | Some s \<Rightarrow>
            if progid s \<noteq> 0
            then GL (glUseProgram 0)
                 # (if shader_type s = EDGE_RENDERING \<and> showedges
                    then [Call_shader_attribs_disable] else [])
            else [])
     @ [GL (glDepthFunc GL_LEQUAL)]"

text \<open>
  \<^verbatim>\<open>renderCSGProducts\<close>: the immediate path walks the product group it is given, the buffer
  path walks \<^verbatim>\<open>vbo_vertex_products\<close> and does not look at its first argument.
\<close>

definition renderCSGProducts ::
  "env \<Rightarrow> features \<Rightarrow> OpenCSGRenderer \<Rightarrow> CSGProducts \<Rightarrow> bool \<Rightarrow> shaderinfo_t option
     \<Rightarrow> bool \<Rightarrow> bool \<Rightarrow> event list"
where
  "renderCSGProducts e feat r prods showedges shaderinfo highlight_mode background_mode =
     (if \<not> ExperimentalVxORenderers feat
      then concat (map (render_product_immediate e showedges shaderinfo
                          highlight_mode background_mode) (products prods))
      else concat (map (render_product_vbo showedges shaderinfo) (vbo_vertex_products r)))"

text \<open>\<^verbatim>\<open>OpenCSGRenderer::draw\<close>\<close>

definition draw ::
  "env \<Rightarrow> features \<Rightarrow> OpenCSGRenderer \<Rightarrow> bool \<Rightarrow> shaderinfo_t option \<Rightarrow> event list"
where
  "draw e feat r showedges shaderinfo0 =
     (let shaderinfo = (if shaderinfo0 = None \<and> showedges then Some (getShader e)
                        else shaderinfo0)
      in if \<not> ExperimentalVxORenderers feat
         then (case root_products r of
                 None \<Rightarrow> []
               | Some p \<Rightarrow> renderCSGProducts e feat r p showedges shaderinfo False False)
              @ (case background_products r of
                   None \<Rightarrow> []
                 | Some p \<Rightarrow> renderCSGProducts e feat r p showedges shaderinfo False True)
              @ (case highlights_products r of
                   None \<Rightarrow> []
                 | Some p \<Rightarrow> renderCSGProducts e feat r p showedges shaderinfo True False)
         else renderCSGProducts e feat r \<lparr>products = []\<rparr> showedges shaderinfo False False)"

section \<open>The buffer path: construction\<close>

text \<open>\<^verbatim>\<open>std::make_shared<VertexState>()\<close>: the base class, nothing to draw, no callbacks.\<close>

definition VertexState_default :: VertexState where
  "VertexState_default =
     \<lparr>vs_class = VertexState_base, drawMode = 0, drawSize = 0, drawType = 0, drawOffset = 0,
      elementOffset = 0, verticesVBO = 0, elementsVBO = 0, glBegin = [], glEnd = []\<rparr>"

text \<open>The three vertex states that only change the culling state.\<close>

definition cull_front_state :: VertexState where
  "cull_front_state = VertexState_default\<lparr>glBegin := [glEnable GL_CULL_FACE, glCullFace GL_FRONT]\<rparr>"

definition cull_back_state :: VertexState where
  "cull_back_state = VertexState_default\<lparr>glBegin := [glCullFace GL_BACK]\<rparr>"

definition cull_disable_state :: VertexState where
  "cull_disable_state = VertexState_default\<lparr>glEnd := [glDisable GL_CULL_FACE]\<rparr>"

text \<open>
  \<^verbatim>\<open>createVBOPrimitive\<close>. The source copies the first two entries of \<^verbatim>\<open>glBegin()\<close> and the first
  entry of \<^verbatim>\<open>glEnd()\<close> through iterator ranges, which are undefined when the entries are not
  there.
\<close>

definition createVBOPrimitive :: "VertexState \<Rightarrow> Operation \<Rightarrow> nat \<Rightarrow> error + Primitive" where
  "createVBOPrimitive vertex_state operation convexity =
     (if length (glBegin vertex_state) < 2 \<or> length (glEnd vertex_state) < 1
      then Inl UndefinedBehaviour
      else Inr (OpenCSGVBOPrim operation convexity
             (Some \<lparr>vs_class = VertexState_base,
                    drawMode = drawMode vertex_state, drawSize = drawSize vertex_state,
                    drawType = drawType vertex_state, drawOffset = drawOffset vertex_state,
                    elementOffset = elementOffset vertex_state,
                    verticesVBO = verticesVBO vertex_state,
                    elementsVBO = elementsVBO vertex_state,
                    glBegin = take 2 (glBegin vertex_state),
                    glEnd = take 1 (glEnd vertex_state)\<rparr>)))"

text \<open>
  \<^verbatim>\<open>std::dynamic_pointer_cast<OpenCSGVertexState>(vertex_states->back())\<close>: null when the last
  pointer is null or points to another class; \<^verbatim>\<open>back()\<close> of an empty vector is undefined.
\<close>

definition back_surface :: "VertexState option list \<Rightarrow> error + VertexState option" where
  "back_surface vss =
     (if vss = [] then Inl UndefinedBehaviour
      else Inr (case last vss of
                  None \<Rightarrow> None
                | Some v \<Rightarrow> (case vs_class v of
                               OpenCSGVertexState i \<Rightarrow> Some v
                             | _ \<Rightarrow> None)))"

text \<open>
  The local variables of one iteration of the loop over the products that the loops over the
  leaves change, and the calls made so far.
\<close>

record build_state =
  last_color :: Color4f
  prims :: "Primitive list"
  vertex_states :: "VertexState option list"
  calls :: "event list"

text \<open>
  \<^verbatim>\<open>surface->csgObjectIndex(i)\<close> writes to the object that the last entry of the container
  points to, so the entry changes with it.
\<close>

definition set_csgObjectIndex :: "VertexState \<Rightarrow> nat \<Rightarrow> VertexState" where
  "set_csgObjectIndex surface i = surface\<lparr>vs_class := OpenCSGVertexState i\<rparr>"

text \<open>
  The colour resolution of the construction, the same in both loops over leaves
  (lines 205 to 208 and 279 to 282): \<^verbatim>\<open>Color4f color; if (getShaderColor(colormode, c, color))
  last_color = color;\<close>. The result is \<^verbatim>\<open>color\<close> and \<^verbatim>\<open>last_color\<close> after these lines.
\<close>

definition resolve_color :: "env \<Rightarrow> ColorMode \<Rightarrow> Color4f \<Rightarrow> Color4f \<Rightarrow> Color4f \<times> Color4f" where
  "resolve_color e colormode c lc =
     (let res = getShaderColor e colormode c (default_Color4f e)
      in (snd res, if fst res then snd res else lc))"

text \<open>The body of the loop over \<^verbatim>\<open>product.intersections\<close> (lines 188 to 261).\<close>

definition build_intersection ::
  "env \<Rightarrow> bool \<Rightarrow> bool \<Rightarrow> CSGChainObject \<Rightarrow> build_state \<Rightarrow> error + build_state"
where
  "build_intersection e highlight_mode background_mode csgobj st =
     (case as_PolySet (geom (leaf csgobj)) of
        None \<Rightarrow> Inr st
      | Some ps \<Rightarrow>
          (let c = color (leaf csgobj);
               m = matrix (leaf csgobj);
               csgmode = get_csgmode e highlight_mode background_mode None;
               colormode = leaf_colormode highlight_mode background_mode MATERIAL;
               rc = resolve_color e colormode c (last_color st);
               col = fst rc;
               lc = snd rc;
               st1 = st\<lparr>last_color := lc, calls := calls st @ [Call_addColor lc]\<rparr>
           in if alpha col = 1 then
                (let vs1 = vertex_states st1 @ create_surface e ps (vertex_states st1) csgmode m lc;
                     st2 = st1\<lparr>vertex_states := vs1,
                               calls := calls st1 @ [Call_create_surface ps csgmode m lc]\<rparr>
                 in case back_surface vs1 of
                      Inl err \<Rightarrow> Inl err
                    | Inr None \<Rightarrow> Inr st2
                    | Inr (Some surface0) \<Rightarrow>
                        (let surface = set_csgObjectIndex surface0 (index (leaf csgobj))
                         in case createVBOPrimitive surface Intersection (getConvexity ps) of
                              Inl err \<Rightarrow> Inl err
                            | Inr prim \<Rightarrow>
                                Inr (st2\<lparr>vertex_states := butlast vs1 @ [Some surface],
                                         prims := prims st2 @ [prim]\<rparr>)))
              else
                (let vs0 = vertex_states st1 @ [Some cull_front_state];
                     vs1 = vs0 @ create_surface e ps vs0 csgmode m lc;
                     st2 = st1\<lparr>vertex_states := vs1,
                               calls := calls st1 @ [Call_create_surface ps csgmode m lc]\<rparr>
                 in case back_surface vs1 of
                      Inl err \<Rightarrow> Inl err
                    | Inr None \<Rightarrow>
                        Inl (AssertionFailed ''Intersection surface state was nullptr'')
                    | Inr (Some surface0) \<Rightarrow>
                        (let surface = set_csgObjectIndex surface0 (index (leaf csgobj))
                         in case createVBOPrimitive surface Intersection (getConvexity ps) of
                              Inl err \<Rightarrow> Inl err
                            | Inr prim \<Rightarrow>
                                Inr (st2\<lparr>vertex_states :=
                                           butlast vs1 @ [Some surface, Some cull_back_state,
                                                          Some surface, Some cull_disable_state],
                                         prims := prims st2 @ [prim]\<rparr>)))))"

text \<open>The body of the loop over \<^verbatim>\<open>product.subtractions\<close> (lines 263 to 316).\<close>

definition build_subtraction ::
  "env \<Rightarrow> bool \<Rightarrow> bool \<Rightarrow> CSGChainObject \<Rightarrow> build_state \<Rightarrow> error + build_state"
where
  "build_subtraction e highlight_mode background_mode csgobj st =
     (case as_PolySet (geom (leaf csgobj)) of
        None \<Rightarrow> Inr st
      | Some ps \<Rightarrow>
          (let c = color (leaf csgobj);
               m = matrix (leaf csgobj);
               csgmode = get_csgmode e highlight_mode background_mode (Some DIFFERENCE);
               colormode = leaf_colormode highlight_mode background_mode CUTOUT;
               rc = resolve_color e colormode c (last_color st);
               col = fst rc;
               lc = snd rc;
               st1 = st\<lparr>last_color := lc, calls := calls st @ [Call_addColor lc]\<rparr>;
               vs0 = vertex_states st1 @ [Some cull_front_state];
               vs1 = vs0 @ create_surface e ps vs0 csgmode m lc;
               st2 = st1\<lparr>vertex_states := vs1,
                         calls := calls st1 @ [Call_create_surface ps csgmode m lc]\<rparr>
           in case back_surface vs1 of
                Inl err \<Rightarrow> Inl err
              | Inr None \<Rightarrow> Inl (AssertionFailed ''Subtraction surface state was nullptr'')
              | Inr (Some surface0) \<Rightarrow>
                  (let surface = set_csgObjectIndex surface0 (index (leaf csgobj))
                   in case createVBOPrimitive surface Subtraction (getConvexity ps) of
                        Inl err \<Rightarrow> Inl err
                      | Inr prim \<Rightarrow>
                          Inr (st2\<lparr>vertex_states :=
                                     butlast vs1 @ [Some surface, Some cull_disable_state],
                                   prims := prims st2 @ [prim]\<rparr>))))"

text \<open>A loop whose body may abort.\<close>

fun foldE :: "('a \<Rightarrow> 's \<Rightarrow> error + 's) \<Rightarrow> 'a list \<Rightarrow> 's \<Rightarrow> error + 's" where
  "foldE f [] s = Inr s"
| "foldE f (x # xs) s = (case f x s of Inl err \<Rightarrow> Inl err | Inr s' \<Rightarrow> foldE f xs s')"

text \<open>The two loops that add up \<^verbatim>\<open>num_vertices\<close> (lines 174 to 184).\<close>

definition num_vertices :: "env \<Rightarrow> bool \<Rightarrow> bool \<Rightarrow> CSGProduct \<Rightarrow> nat" where
  "num_vertices e highlight_mode background_mode product =
     sum_list (map (\<lambda>csgobj. case geom (leaf csgobj) of
                      None \<Rightarrow> 0
                    | Some g \<Rightarrow> getSurfaceBufferSize e csgobj highlight_mode background_mode
                                 INTERSECTION)
                 (intersections product))
     + sum_list (map (\<lambda>csgobj. case geom (leaf csgobj) of
                        None \<Rightarrow> 0
                      | Some g \<Rightarrow> getSurfaceBufferSize e csgobj highlight_mode background_mode
                                   DIFFERENCE)
                   (subtractions product))"

text \<open>The calls that clear the buffer bindings (lines 318 to 325).\<close>

definition unbind_buffers :: "features \<Rightarrow> event list" where
  "unbind_buffers feat =
     (if ExperimentalVxORenderersDirect feat \<or> ExperimentalVxORenderersPrealloc feat
      then (if ExperimentalVxORenderersIndexing feat
            then [GL (glBindBuffer GL_ELEMENT_ARRAY_BUFFER 0)] else [])
           @ [GL (glBindBuffer GL_ARRAY_BUFFER 0)]
      else [])"

text \<open>
  One iteration of the loop over \<^verbatim>\<open>products.products\<close> (lines 163 to 330): the product that
  is appended to \<^verbatim>\<open>vbo_vertex_products\<close> and the calls made. Which buffer name the vertex array
  receives is settled together with \<^verbatim>\<open>VertexStateManager::initializeSize\<close> and is not followed
  here.
\<close>

definition build_product ::
  "env \<Rightarrow> features \<Rightarrow> bool \<Rightarrow> bool \<Rightarrow> CSGProduct \<Rightarrow> error + (OpenCSGVBOProduct \<times> event list)"
where
  "build_product e feat highlight_mode background_mode product =
     (let st0 = \<lparr>last_color = default_Color4f e, prims = [], vertex_states = [],
                 calls = [Call_addSurfaceData, Call_writeSurface, Call_add_shader_data,
                          Call_initializeSize
                            (num_vertices e highlight_mode background_mode product)]\<rparr>
      in case foldE (build_intersection e highlight_mode background_mode)
                (intersections product) st0 of
           Inl err \<Rightarrow> Inl err
         | Inr st1 \<Rightarrow>
             (case foldE (build_subtraction e highlight_mode background_mode)
                     (subtractions product) st1 of
                Inl err \<Rightarrow> Inl err
              | Inr st2 \<Rightarrow>
                  Inr (\<lparr>primitives = prims st2, states = vertex_states st2\<rparr>,
                       calls st2 @ unbind_buffers feat @ [Call_createInterleavedVBOs])))"

text \<open>The loop over \<^verbatim>\<open>products.products\<close>.\<close>

fun build_products ::
  "env \<Rightarrow> features \<Rightarrow> bool \<Rightarrow> bool \<Rightarrow> CSGProduct list
     \<Rightarrow> error + (OpenCSGVBOProduct list \<times> event list)"
where
  "build_products e feat highlight_mode background_mode [] = Inr ([], [])"
| "build_products e feat highlight_mode background_mode (product # rest) =
     (case build_product e feat highlight_mode background_mode product of
        Inl err \<Rightarrow> Inl err
      | Inr (p, tr) \<Rightarrow>
          (case build_products e feat highlight_mode background_mode rest of
             Inl err \<Rightarrow> Inl err
           | Inr (ps, trs) \<Rightarrow> Inr (p # ps, tr @ trs)))"

text \<open>\<^verbatim>\<open>createCSGProducts\<close>\<close>

definition createCSGProducts ::
  "env \<Rightarrow> features \<Rightarrow> CSGProducts \<Rightarrow> bool \<Rightarrow> bool \<Rightarrow> OpenCSGRenderer
     \<Rightarrow> error + (OpenCSGRenderer \<times> event list)"
where
  "createCSGProducts e feat prods highlight_mode background_mode r =
     (let n = length (products prods);
          vbo_count = (if ExperimentalVxORenderersIndexing feat then n * 2 else n);
          r1 = (if n \<noteq> 0
                then r\<lparr>all_vbos := map (\<lambda>i. gl_buffers_generated r + 1 + i) [0..<vbo_count],
                       gl_buffers_generated := gl_buffers_generated r + vbo_count\<rparr>
                else r);
          gen = (if n \<noteq> 0 then [GL (glGenBuffers vbo_count)] else [])
      in case build_products e feat highlight_mode background_mode (products prods) of
           Inl err \<Rightarrow> Inl err
         | Inr (ps, tr) \<Rightarrow>
             Inr (r1\<lparr>vbo_vertex_products := vbo_vertex_products r1 @ ps\<rparr>, gen @ tr))"

text \<open>\<^verbatim>\<open>createCSGProducts\<close> on a product group that may be absent.\<close>

definition create_group ::
  "env \<Rightarrow> features \<Rightarrow> CSGProducts option \<Rightarrow> bool \<Rightarrow> bool \<Rightarrow> OpenCSGRenderer
     \<Rightarrow> error + (OpenCSGRenderer \<times> event list)"
where
  "create_group e feat pg highlight_mode background_mode r =
     (case pg of
        None \<Rightarrow> Inr (r, [])
      | Some prods \<Rightarrow> createCSGProducts e feat prods highlight_mode background_mode r)"

text \<open>\<^verbatim>\<open>OpenCSGRenderer::prepare\<close>\<close>

definition prepare ::
  "env \<Rightarrow> features \<Rightarrow> OpenCSGRenderer \<Rightarrow> error + (OpenCSGRenderer \<times> event list)"
where
  "prepare e feat r =
     (if ExperimentalVxORenderers feat \<and> vbo_vertex_products r = []
      then (case create_group e feat (root_products r) False False r of
              Inl err \<Rightarrow> Inl err
            | Inr (r1, t1) \<Rightarrow>
                (case create_group e feat (background_products r1) False True r1 of
                   Inl err \<Rightarrow> Inl err
                 | Inr (r2, t2) \<Rightarrow>
                     (case create_group e feat (highlights_products r2) True False r2 of
                        Inl err \<Rightarrow> Inl err
                      | Inr (r3, t3) \<Rightarrow> Inr (r3, t1 @ t2 @ t3))))
      else Inr (r, []))"

text \<open>
  Modelled from the spec: \<^verbatim>\<open>VertexState::draw()\<close>, whose code is not in this file. It runs
  the pre-draw callbacks of the vertex state, its draw call and its post-draw callbacks
  (section 4.4, replay step). \<open>Draw_call vs\<close> is the draw call of \<open>vs\<close>.
\<close>

definition VertexState_draw :: "VertexState \<Rightarrow> event list" where
  "VertexState_draw vs = map GL (glBegin vs) @ [Draw_call vs] @ map GL (glEnd vs)"

text \<open>A trace with every call of \<^verbatim>\<open>VertexState::draw()\<close> replaced by what the call does.\<close>

fun expand_draw :: "event \<Rightarrow> event list" where
  "expand_draw (Call_VertexState_draw vs) = VertexState_draw vs"
| "expand_draw ev = [ev]"

definition expand_draws :: "event list \<Rightarrow> event list" where
  "expand_draws tr = concat (map expand_draw tr)"

section \<open>Observations on traces\<close>

fun is_compositor_call :: "event \<Rightarrow> bool" where
  "is_compositor_call (Call_OpenCSG_render ps) = True"
| "is_compositor_call ev = False"

fun is_cull_call :: "gl_call \<Rightarrow> bool" where
  "is_cull_call (glEnable cap) = (cap = GL_CULL_FACE)"
| "is_cull_call (glDisable cap) = (cap = GL_CULL_FACE)"
| "is_cull_call (glCullFace f) = True"
| "is_cull_call c = False"

fun is_surface_class :: "VertexState_class \<Rightarrow> bool" where
  "is_surface_class (OpenCSGVertexState i) = True"
| "is_surface_class k = False"

text \<open>
  A surface draw: a call of \<^verbatim>\<open>render_surface\<close> in the immediate path, the draw call of an
  \<^verbatim>\<open>OpenCSGVertexState\<close> in the buffer path.
\<close>

fun is_surface_draw :: "event \<Rightarrow> bool" where
  "is_surface_draw (Call_render_surface g csgmode m si) = True"
| "is_surface_draw (Draw_call vs) = is_surface_class (vs_class vs)"
| "is_surface_draw ev = False"

fun is_cull_event :: "event \<Rightarrow> bool" where
  "is_cull_event (GL c) = is_cull_call c"
| "is_cull_event ev = False"

text \<open>The surface draws and the changes of the culling state of a trace, in order.\<close>

definition cull_and_surface :: "event list \<Rightarrow> event list" where
  "cull_and_surface tr = filter (\<lambda>ev. is_cull_event ev \<or> is_surface_draw ev) tr"

text \<open>The number of surface draws of a trace.\<close>

definition surface_draws :: "event list \<Rightarrow> nat" where
  "surface_draws tr = length (filter is_surface_draw tr)"

fun is_draw_call :: "event \<Rightarrow> bool" where
  "is_draw_call (Call_VertexState_draw vs) = True"
| "is_draw_call ev = False"

fun is_bind_call :: "event \<Rightarrow> bool" where
  "is_bind_call (GL (glBindBuffer target b)) = True"
| "is_bind_call ev = False"

fun is_gen_call :: "event \<Rightarrow> bool" where
  "is_gen_call (GL (glGenBuffers n)) = True"
| "is_gen_call ev = False"

text \<open>The frame of one product in the buffer path: what is drawn, callbacks included.\<close>

definition replay :: "bool \<Rightarrow> shaderinfo_t option \<Rightarrow> VertexState option list \<Rightarrow> event list" where
  "replay showedges shaderinfo vss =
     expand_draws (concat (map (draw_state showedges shaderinfo) vss))"

text \<open>
  What the construction expects of a surface write: it appends vertex states, the last of them
  being the only \<^verbatim>\<open>OpenCSGVertexState\<close>, with its two vertex position callbacks and the callback
  that disables them, and no callback of these states touches the culling state.
\<close>

definition is_surface_state :: "VertexState option \<Rightarrow> bool" where
  "is_surface_state vsp = (case vsp of None \<Rightarrow> False | Some v \<Rightarrow> is_surface_class (vs_class v))"

definition no_cull_callbacks :: "VertexState option \<Rightarrow> bool" where
  "no_cull_callbacks vsp =
     (case vsp of
        None \<Rightarrow> True
      | Some v \<Rightarrow> list_all (\<lambda>c. \<not> is_cull_call c) (glBegin v @ glEnd v))"

definition surface_written :: "VertexState option list \<Rightarrow> bool" where
  "surface_written vss =
     (case rev vss of
        [] \<Rightarrow> False
      | s # pre \<Rightarrow>
          is_surface_state s
          \<and> (case s of None \<Rightarrow> False
              | Some v \<Rightarrow> 2 \<le> length (glBegin v) \<and> 1 \<le> length (glEnd v))
          \<and> list_all (\<lambda>p. \<not> is_surface_state p) pre
          \<and> list_all no_cull_callbacks vss)"

definition writes_surfaces :: "env \<Rightarrow> bool" where
  "writes_surfaces e = (\<forall>ps vss csgmode m c. surface_written (create_surface e ps vss csgmode m c))"

text \<open>The vertex states of a container, without the null pointers.\<close>

definition retained :: "VertexState option list \<Rightarrow> VertexState list" where
  "retained vss = concat (map (\<lambda>p. case p of None \<Rightarrow> [] | Some v \<Rightarrow> [v]) vss)"

text \<open>The calls of a construction that did not abort.\<close>

definition product_calls :: "error + (OpenCSGVBOProduct \<times> event list) \<Rightarrow> event list" where
  "product_calls res = (case res of Inl err \<Rightarrow> [] | Inr (bp, tr) \<Rightarrow> tr)"

text \<open>The colours handed to \<^verbatim>\<open>create_surface\<close> and to \<^verbatim>\<open>addColor\<close>, in order.\<close>

fun surface_color :: "event \<Rightarrow> Color4f list" where
  "surface_color (Call_create_surface g csgmode m c) = [c]"
| "surface_color ev = []"

definition surface_colors :: "event list \<Rightarrow> Color4f list" where
  "surface_colors tr = concat (map surface_color tr)"

fun added_color :: "event \<Rightarrow> Color4f list" where
  "added_color (Call_addColor c) = [c]"
| "added_color ev = []"

definition added_colors :: "event list \<Rightarrow> Color4f list" where
  "added_colors tr = concat (map added_color tr)"

text \<open>A leaf that the construction does not skip: its geometry is a polygon surface.\<close>

definition is_polygon_leaf :: "CSGChainObject \<Rightarrow> bool" where
  "is_polygon_leaf csgobj = (as_PolySet (geom (leaf csgobj)) \<noteq> None)"

text \<open>
  What the resolver answers for the leaves of a product that are not skipped, intersections
  first: the flag and the colour.
\<close>

definition leaf_resolutions :: "env \<Rightarrow> bool \<Rightarrow> bool \<Rightarrow> CSGProduct \<Rightarrow> (bool \<times> Color4f) list" where
  "leaf_resolutions e hl bg product =
     map (\<lambda>csgobj. getShaderColor e (leaf_colormode hl bg MATERIAL) (color (leaf csgobj))
                     (default_Color4f e))
       (filter is_polygon_leaf (intersections product))
     @ map (\<lambda>csgobj. getShaderColor e (leaf_colormode hl bg CUTOUT) (color (leaf csgobj))
                       (default_Color4f e))
         (filter is_polygon_leaf (subtractions product))"

text \<open>
  The colours that the spec's rule retains (section 4.1): the resolved colour where the
  resolver overrides, the colour retained before where it does not; \<open>lc\<close> is the colour
  retained at the start.
\<close>

fun retained_colors :: "Color4f \<Rightarrow> (bool \<times> Color4f) list \<Rightarrow> Color4f list" where
  "retained_colors lc [] = []"
| "retained_colors lc (r # rs) =
     (if fst r then snd r # retained_colors (snd r) rs else lc # retained_colors lc rs)"

text \<open>A leaf with a geometry, of whatever class.\<close>

definition has_geometry :: "CSGChainObject \<Rightarrow> bool" where
  "has_geometry csgobj = (geom (leaf csgobj) \<noteq> None)"

text \<open>The operation and the convexity of a primitive.\<close>

fun prim_tag :: "Primitive \<Rightarrow> Operation \<times> nat" where
  "prim_tag (OpenCSGPrim operation convexity g m csgmode) = (operation, convexity)"
| "prim_tag (OpenCSGVBOPrim operation convexity vs) = (operation, convexity)"

text \<open>The primitive lists that a trace hands to the compositor, in order.\<close>

fun compositor_arg :: "event \<Rightarrow> Primitive list list" where
  "compositor_arg (Call_OpenCSG_render ps) = [ps]"
| "compositor_arg ev = []"

definition compositor_received :: "event list \<Rightarrow> Primitive list list" where
  "compositor_received tr = concat (map compositor_arg tr)"


section \<open>Examples\<close>

text \<open>A collaborator set-up and leaves on which the theorems below are instantiated.\<close>

definition example_surface :: VertexState where
  "example_surface =
     \<lparr>vs_class = OpenCSGVertexState 0, drawMode = 4, drawSize = 36, drawType = 0, drawOffset = 0,
      elementOffset = 0, verticesVBO = 1, elementsVBO = 0,
      glBegin = [glOther 0, glOther 1], glEnd = [glOther 2]\<rparr>"

definition example_env :: env where
  "example_env =
     \<lparr>get_csgmode = (\<lambda>highlight_mode background_mode type. 0),
      getShaderColor = (\<lambda>colormode c out. (True, c)),
      setColor = (\<lambda>colormode c shaderinfo. c),
      create_surface = (\<lambda>ps vss csgmode m c. [Some example_surface]),
      getSurfaceBufferSize = (\<lambda>csgobj highlight_mode background_mode type. 36),
      getShader = \<lparr>progid = 1, shader_type = EDGE_RENDERING, select_identifier = 0\<rparr>,
      default_Color4f = Color4f (-1) (-1) (-1) 1\<rparr>"

definition example_leaf :: "real \<Rightarrow> CSGChainObject" where
  "example_leaf a =
     \<lparr>leaf = \<lparr>geom = Some (PolySet 1 0), matrix = [], color = Color4f 1 0 0 a, index = 7\<rparr>\<rparr>"

definition example_state :: build_state where
  "example_state =
     \<lparr>last_color = Color4f (-1) (-1) (-1) 1, prims = [], vertex_states = [], calls = []\<rparr>"

definition example_product :: "CSGChainObject list \<Rightarrow> CSGChainObject list \<Rightarrow> CSGProduct" where
  "example_product ins subs = \<lparr>intersections = ins, subtractions = subs\<rparr>"

definition example_shader_state :: VertexState where
  "example_shader_state =
     VertexState_default\<lparr>vs_class := VBOShaderVertexState, glBegin := [glOther 3],
                          glEnd := [glOther 4]\<rparr>"

definition example_features :: "bool \<Rightarrow> bool \<Rightarrow> features" where
  "example_features indexing direct =
     \<lparr>ExperimentalVxORenderers = True, ExperimentalVxORenderersIndexing = indexing,
      ExperimentalVxORenderersDirect = direct, ExperimentalVxORenderersPrealloc = False\<rparr>"

text \<open>
  A collaborator set-up whose colour resolver overrides the colour of an intersection leaf and
  does not override in the mode \<^verbatim>\<open>CUTOUT\<close>.
\<close>

definition declining_env :: env where
  "declining_env =
     example_env\<lparr>getShaderColor :=
                   (\<lambda>colormode c out. if colormode = CUTOUT then (False, out) else (True, c))\<rparr>"

text \<open>A leaf whose geometry is not a polygon surface.\<close>

definition example_other_leaf :: CSGChainObject where
  "example_other_leaf =
     \<lparr>leaf = \<lparr>geom = Some (OtherGeometry 2), matrix = [], color = Color4f 0 1 0 1, index = 8\<rparr>\<rparr>"

text \<open>A renderer before the first frame, with one product in its root group.\<close>

definition example_renderer :: OpenCSGRenderer where
  "example_renderer =
     \<lparr>root_products = Some \<lparr>products = [example_product [example_leaf 1] []]\<rparr>,
      highlights_products = None, background_products = None,
      all_vbos = [], vbo_vertex_products = [], gl_buffers_generated = 0\<rparr>"

text \<open>
  A collaborator set-up whose surface write leaves a vertex state of the base class, with an
  empty draw range, at the back of the container.
\<close>

definition unrecovered_env :: env where
  "unrecovered_env =
     example_env\<lparr>create_surface := (\<lambda>ps vss csgmode m c. [Some VertexState_default])\<rparr>"



section \<open>Lemmas on the render paths\<close>

lemma render_intersection_calls:
  "list_all (\<lambda>ev. \<not> is_compositor_call ev \<and> ev \<noteq> GL (glDepthFunc f) \<and> \<not> is_bind_call ev)
     (render_intersection e si hl bg csgobj)"
  by (simp add: render_intersection_def select_uniform_def Let_def split: option.splits)

lemma render_subtraction_calls:
  "list_all (\<lambda>ev. \<not> is_compositor_call ev \<and> ev \<noteq> GL (glDepthFunc f) \<and> \<not> is_bind_call ev)
     (render_subtraction e si hl bg csgobj)"
  by (simp add: render_subtraction_def Let_def split: option.splits)

lemma draw_state_calls:
  "list_all (\<lambda>ev. \<not> is_compositor_call ev \<and> ev \<noteq> GL (glDepthFunc f))
     (draw_state showedges si vsp)"
  by (simp add: draw_state_def select_uniform_def split: option.splits VertexState_class.splits)

lemma list_all_concat_map:
  "(\<And>x. list_all P (f x)) \<Longrightarrow> list_all P (concat (map f xs))"
  by (induction xs) simp_all

lemma filter_concat_map_empty:
  "(\<And>x. list_all (\<lambda>y. \<not> P y) (f x)) \<Longrightarrow> filter P (concat (map f xs)) = []"
  by (induction xs) (simp_all add: list_all_iff)

lemma immediate_no_compositing:
  assumes "length (immediate_primitives e hl bg product) \<le> 1"
  shows "list_all (\<lambda>ev. \<not> is_compositor_call ev \<and> ev \<noteq> GL (glDepthFunc GL_EQUAL))
           (render_product_immediate e showedges si hl bg product)"
proof -
  have a: "list_all (\<lambda>ev. \<not> is_compositor_call ev \<and> ev \<noteq> GL (glDepthFunc GL_EQUAL))
             (concat (map (render_intersection e si hl bg) (intersections product)))"
    by (rule list_all_concat_map) (use render_intersection_calls in \<open>simp add: list_all_iff\<close>)
  have b: "list_all (\<lambda>ev. \<not> is_compositor_call ev \<and> ev \<noteq> GL (glDepthFunc GL_EQUAL))
             (concat (map (render_subtraction e si hl bg) (subtractions product)))"
    by (rule list_all_concat_map) (use render_subtraction_calls in \<open>simp add: list_all_iff\<close>)
  show ?thesis
    using assms a b by (simp add: render_product_immediate_def Let_def split: option.splits)
qed

lemma vbo_no_compositing:
  assumes "length (primitives vp) \<le> 1"
  shows "list_all (\<lambda>ev. \<not> is_compositor_call ev \<and> ev \<noteq> GL (glDepthFunc GL_EQUAL))
           (render_product_vbo showedges si vp)"
proof -
  have a: "list_all (\<lambda>ev. \<not> is_compositor_call ev \<and> ev \<noteq> GL (glDepthFunc GL_EQUAL))
             (concat (map (draw_state showedges si) (states vp)))"
    by (rule list_all_concat_map) (rule draw_state_calls)
  show ?thesis
    using assms a by (simp add: render_product_vbo_def split: option.splits)
qed

lemma immediate_depth_reset:
  "filter (\<lambda>ev. ev = GL (glDepthFunc GL_LEQUAL))
     (render_product_immediate e showedges si hl bg product) = [GL (glDepthFunc GL_LEQUAL)]"
proof -
  have a: "filter (\<lambda>ev. ev = GL (glDepthFunc GL_LEQUAL))
             (concat (map (render_intersection e si hl bg) (intersections product))) = []"
    by (rule filter_concat_map_empty) (use render_intersection_calls in \<open>simp add: list_all_iff\<close>)
  have b: "filter (\<lambda>ev. ev = GL (glDepthFunc GL_LEQUAL))
             (concat (map (render_subtraction e si hl bg) (subtractions product))) = []"
    by (rule filter_concat_map_empty) (use render_subtraction_calls in \<open>simp add: list_all_iff\<close>)
  show ?thesis
    using a b by (simp add: render_product_immediate_def Let_def split: option.splits)
qed

lemma vbo_depth_reset:
  "filter (\<lambda>ev. ev = GL (glDepthFunc GL_LEQUAL))
     (render_product_vbo showedges si vp) = [GL (glDepthFunc GL_LEQUAL)]"
proof -
  have a: "filter (\<lambda>ev. ev = GL (glDepthFunc GL_LEQUAL))
             (concat (map (draw_state showedges si) (states vp))) = []"
    by (rule filter_concat_map_empty) (use draw_state_calls in \<open>simp add: list_all_iff\<close>)
  show ?thesis
    using a by (simp add: render_product_vbo_def split: option.splits)
qed

lemma immediate_last: "last (render_product_immediate e showedges si hl bg product) = GL (glDepthFunc GL_LEQUAL)"
  by (simp add: render_product_immediate_def Let_def)

lemma vbo_last: "last (render_product_vbo showedges si vp) = GL (glDepthFunc GL_LEQUAL)"
  by (simp add: render_product_vbo_def)

section \<open>Lemmas on the construction\<close>

lemma surface_writtenD:
  assumes "surface_written cs"
  shows "\<exists>v. cs = butlast cs @ [Some v] \<and> is_surface_class (vs_class v)
           \<and> 2 \<le> length (glBegin v) \<and> 1 \<le> length (glEnd v)
           \<and> list_all (\<lambda>p. \<not> is_surface_state p) (butlast cs)
           \<and> list_all no_cull_callbacks cs"
proof -
  from assms obtain s pre where r: "rev cs = s # pre"
    by (cases "rev cs") (simp_all add: surface_written_def)
  then have cs: "cs = rev pre @ [s]"
    by (metis rev.simps(2) rev_rev_ident)
  from assms r obtain v where s: "s = Some v"
    by (cases s) (simp_all add: surface_written_def)
  from assms r s have "is_surface_class (vs_class v)" "2 \<le> length (glBegin v)"
    "1 \<le> length (glEnd v)" "list_all (\<lambda>p. \<not> is_surface_state p) pre"
    "list_all no_cull_callbacks cs"
    by (simp_all add: surface_written_def is_surface_state_def)
  with cs s show ?thesis
    by (auto simp: list_all_iff)
qed

lemma back_surface_written:
  assumes "is_surface_class (vs_class v)"
  shows "back_surface (vs0 @ pre @ [Some v]) = Inr (Some v)"
  using assms by (cases "vs_class v") (simp_all add: back_surface_def)

lemma createVBOPrimitive_ok:
  assumes "2 \<le> length (glBegin v)" "1 \<le> length (glEnd v)"
  shows "\<exists>vs. createVBOPrimitive (set_csgObjectIndex v i) operation cv
           = Inr (OpenCSGVBOPrim operation cv (Some vs))"
  using assms by (cases "glEnd v") (simp_all add: createVBOPrimitive_def set_csgObjectIndex_def)

lemma as_PolySet_Some: "as_PolySet g = Some ps \<Longrightarrow> g = Some ps \<and> (\<exists>cv k. ps = PolySet cv k)"
  by (cases g rule: as_PolySet.cases) auto


lemma build_intersection_opaque:
  assumes ps: "as_PolySet (geom (leaf csgobj)) = Some ps"
      and w: "writes_surfaces e"
      and a: "alpha (fst (resolve_color e (leaf_colormode hl bg MATERIAL) (color (leaf csgobj))
                  (last_color st))) = 1"
  shows "\<exists>pre s vs.
           build_intersection e hl bg csgobj st
             = Inr (st\<lparr>last_color := (snd (resolve_color e (leaf_colormode hl bg MATERIAL) (color (leaf csgobj)) (last_color st))),
                   calls := calls st @ [Call_addColor (snd (resolve_color e (leaf_colormode hl bg MATERIAL) (color (leaf csgobj)) (last_color st))),
                              Call_create_surface ps (get_csgmode e hl bg None)
                                (matrix (leaf csgobj)) (snd (resolve_color e (leaf_colormode hl bg MATERIAL) (color (leaf csgobj)) (last_color st)))],
                   vertex_states := vertex_states st @ pre @ [Some s],
                   prims := prims st
                      @ [OpenCSGVBOPrim Intersection (getConvexity ps) (Some vs)]\<rparr>)
           \<and> vs_class s = OpenCSGVertexState (index (leaf csgobj))
           \<and> no_cull_callbacks (Some s)
           \<and> list_all (\<lambda>p. \<not> is_surface_state p) pre
           \<and> list_all no_cull_callbacks pre"
proof -
  let ?lc = "(snd (resolve_color e (leaf_colormode hl bg MATERIAL) (color (leaf csgobj)) (last_color st)))"
  let ?vs0 = "vertex_states st"
  let ?cs = "create_surface e ps ?vs0 (get_csgmode e hl bg None)
               (matrix (leaf csgobj)) ?lc"
  have "surface_written ?cs"
    using w by (simp add: writes_surfaces_def)
  from surface_writtenD[OF this] obtain v where
    cs: "?cs = butlast ?cs @ [Some v]" and sc: "is_surface_class (vs_class v)"
    and lb: "2 \<le> length (glBegin v)" and le: "1 \<le> length (glEnd v)"
    and pre: "list_all (\<lambda>p. \<not> is_surface_state p) (butlast ?cs)"
    and nc: "list_all no_cull_callbacks ?cs"
    by blast
  define s where "s = set_csgObjectIndex v (index (leaf csgobj))"
  from createVBOPrimitive_ok[OF lb le] obtain vs where
    prim: "createVBOPrimitive s Intersection (getConvexity ps)
             = Inr (OpenCSGVBOPrim Intersection (getConvexity ps) (Some vs))"
    unfolding s_def by blast
  have bk: "back_surface (?vs0 @ ?cs) = Inr (Some v)"
    using back_surface_written[OF sc, of "?vs0" "butlast ?cs"] cs by simp
  have bl: "butlast (?vs0 @ ?cs) = ?vs0 @ butlast ?cs"
    using cs by (metis butlast_append snoc_eq_iff_butlast)
  have "Some v \<in> set ?cs"
    using cs by (metis in_set_conv_decomp)
  then have "no_cull_callbacks (Some v)"
    using nc by (simp add: list_all_iff)
  then have ncs: "no_cull_callbacks (Some s)"
    by (simp add: no_cull_callbacks_def s_def set_csgObjectIndex_def)
  have ncp: "list_all no_cull_callbacks (butlast ?cs)"
    using nc by (auto simp: list_all_iff dest: in_set_butlastD)
  have cls: "vs_class s = OpenCSGVertexState (index (leaf csgobj))"
    by (simp add: s_def set_csgObjectIndex_def)
  have "build_intersection e hl bg csgobj st
          = Inr (st\<lparr>last_color := (snd (resolve_color e (leaf_colormode hl bg MATERIAL) (color (leaf csgobj)) (last_color st))),
                   calls := calls st @ [Call_addColor (snd (resolve_color e (leaf_colormode hl bg MATERIAL) (color (leaf csgobj)) (last_color st))),
                              Call_create_surface ps (get_csgmode e hl bg None)
                                (matrix (leaf csgobj)) (snd (resolve_color e (leaf_colormode hl bg MATERIAL) (color (leaf csgobj)) (last_color st)))],
                   vertex_states := vertex_states st @ butlast ?cs @ [Some s],
                   prims := prims st
                      @ [OpenCSGVBOPrim Intersection (getConvexity ps) (Some vs)]\<rparr>)"
    using a ps bk bl prim
    by (simp add: build_intersection_def Let_def s_def[symmetric])
  with cls ncs pre ncp show ?thesis
    by blast
qed

lemma build_intersection_transparent:
  assumes ps: "as_PolySet (geom (leaf csgobj)) = Some ps"
      and w: "writes_surfaces e"
      and a: "alpha (fst (resolve_color e (leaf_colormode hl bg MATERIAL) (color (leaf csgobj))
                  (last_color st))) \<noteq> 1"
  shows "\<exists>pre s vs.
           build_intersection e hl bg csgobj st
             = Inr (st\<lparr>last_color := (snd (resolve_color e (leaf_colormode hl bg MATERIAL) (color (leaf csgobj)) (last_color st))),
                   calls := calls st @ [Call_addColor (snd (resolve_color e (leaf_colormode hl bg MATERIAL) (color (leaf csgobj)) (last_color st))),
                              Call_create_surface ps (get_csgmode e hl bg None)
                                (matrix (leaf csgobj)) (snd (resolve_color e (leaf_colormode hl bg MATERIAL) (color (leaf csgobj)) (last_color st)))],
                   vertex_states := vertex_states st @ [Some cull_front_state] @ pre @ [Some s, Some cull_back_state, Some s, Some cull_disable_state],
                   prims := prims st
                      @ [OpenCSGVBOPrim Intersection (getConvexity ps) (Some vs)]\<rparr>)
           \<and> vs_class s = OpenCSGVertexState (index (leaf csgobj))
           \<and> no_cull_callbacks (Some s)
           \<and> list_all (\<lambda>p. \<not> is_surface_state p) pre
           \<and> list_all no_cull_callbacks pre"
proof -
  let ?lc = "(snd (resolve_color e (leaf_colormode hl bg MATERIAL) (color (leaf csgobj)) (last_color st)))"
  let ?vs0 = "vertex_states st @ [Some cull_front_state]"
  let ?cs = "create_surface e ps ?vs0 (get_csgmode e hl bg None)
               (matrix (leaf csgobj)) ?lc"
  have "surface_written ?cs"
    using w by (simp add: writes_surfaces_def)
  from surface_writtenD[OF this] obtain v where
    cs: "?cs = butlast ?cs @ [Some v]" and sc: "is_surface_class (vs_class v)"
    and lb: "2 \<le> length (glBegin v)" and le: "1 \<le> length (glEnd v)"
    and pre: "list_all (\<lambda>p. \<not> is_surface_state p) (butlast ?cs)"
    and nc: "list_all no_cull_callbacks ?cs"
    by blast
  define s where "s = set_csgObjectIndex v (index (leaf csgobj))"
  from createVBOPrimitive_ok[OF lb le] obtain vs where
    prim: "createVBOPrimitive s Intersection (getConvexity ps)
             = Inr (OpenCSGVBOPrim Intersection (getConvexity ps) (Some vs))"
    unfolding s_def by blast
  have bk: "back_surface (?vs0 @ ?cs) = Inr (Some v)"
    using back_surface_written[OF sc, of "?vs0" "butlast ?cs"] cs by simp
  have bl: "butlast (?vs0 @ ?cs) = ?vs0 @ butlast ?cs"
    using cs by (metis butlast_append snoc_eq_iff_butlast)
  have "Some v \<in> set ?cs"
    using cs by (metis in_set_conv_decomp)
  then have "no_cull_callbacks (Some v)"
    using nc by (simp add: list_all_iff)
  then have ncs: "no_cull_callbacks (Some s)"
    by (simp add: no_cull_callbacks_def s_def set_csgObjectIndex_def)
  have ncp: "list_all no_cull_callbacks (butlast ?cs)"
    using nc by (auto simp: list_all_iff dest: in_set_butlastD)
  have cls: "vs_class s = OpenCSGVertexState (index (leaf csgobj))"
    by (simp add: s_def set_csgObjectIndex_def)
  have "build_intersection e hl bg csgobj st
          = Inr (st\<lparr>last_color := (snd (resolve_color e (leaf_colormode hl bg MATERIAL) (color (leaf csgobj)) (last_color st))),
                   calls := calls st @ [Call_addColor (snd (resolve_color e (leaf_colormode hl bg MATERIAL) (color (leaf csgobj)) (last_color st))),
                              Call_create_surface ps (get_csgmode e hl bg None)
                                (matrix (leaf csgobj)) (snd (resolve_color e (leaf_colormode hl bg MATERIAL) (color (leaf csgobj)) (last_color st)))],
                   vertex_states := vertex_states st @ [Some cull_front_state] @ butlast ?cs @ [Some s, Some cull_back_state, Some s, Some cull_disable_state],
                   prims := prims st
                      @ [OpenCSGVBOPrim Intersection (getConvexity ps) (Some vs)]\<rparr>)"
    using a ps bk bl prim
    by (simp add: build_intersection_def Let_def s_def[symmetric])
  with cls ncs pre ncp show ?thesis
    by blast
qed

lemma build_subtraction_written:
  assumes ps: "as_PolySet (geom (leaf csgobj)) = Some ps"
      and w: "writes_surfaces e"
  shows "\<exists>pre s vs.
           build_subtraction e hl bg csgobj st
             = Inr (st\<lparr>last_color := (snd (resolve_color e (leaf_colormode hl bg CUTOUT) (color (leaf csgobj)) (last_color st))),
                   calls := calls st @ [Call_addColor (snd (resolve_color e (leaf_colormode hl bg CUTOUT) (color (leaf csgobj)) (last_color st))),
                              Call_create_surface ps (get_csgmode e hl bg (Some DIFFERENCE))
                                (matrix (leaf csgobj)) (snd (resolve_color e (leaf_colormode hl bg CUTOUT) (color (leaf csgobj)) (last_color st)))],
                   vertex_states := vertex_states st @ [Some cull_front_state] @ pre @ [Some s, Some cull_disable_state],
                   prims := prims st
                      @ [OpenCSGVBOPrim Subtraction (getConvexity ps) (Some vs)]\<rparr>)
           \<and> vs_class s = OpenCSGVertexState (index (leaf csgobj))
           \<and> no_cull_callbacks (Some s)
           \<and> list_all (\<lambda>p. \<not> is_surface_state p) pre
           \<and> list_all no_cull_callbacks pre"
proof -
  let ?lc = "(snd (resolve_color e (leaf_colormode hl bg CUTOUT) (color (leaf csgobj)) (last_color st)))"
  let ?vs0 = "vertex_states st @ [Some cull_front_state]"
  let ?cs = "create_surface e ps ?vs0 (get_csgmode e hl bg (Some DIFFERENCE))
               (matrix (leaf csgobj)) ?lc"
  have "surface_written ?cs"
    using w by (simp add: writes_surfaces_def)
  from surface_writtenD[OF this] obtain v where
    cs: "?cs = butlast ?cs @ [Some v]" and sc: "is_surface_class (vs_class v)"
    and lb: "2 \<le> length (glBegin v)" and le: "1 \<le> length (glEnd v)"
    and pre: "list_all (\<lambda>p. \<not> is_surface_state p) (butlast ?cs)"
    and nc: "list_all no_cull_callbacks ?cs"
    by blast
  define s where "s = set_csgObjectIndex v (index (leaf csgobj))"
  from createVBOPrimitive_ok[OF lb le] obtain vs where
    prim: "createVBOPrimitive s Subtraction (getConvexity ps)
             = Inr (OpenCSGVBOPrim Subtraction (getConvexity ps) (Some vs))"
    unfolding s_def by blast
  have bk: "back_surface (?vs0 @ ?cs) = Inr (Some v)"
    using back_surface_written[OF sc, of "?vs0" "butlast ?cs"] cs by simp
  have bl: "butlast (?vs0 @ ?cs) = ?vs0 @ butlast ?cs"
    using cs by (metis butlast_append snoc_eq_iff_butlast)
  have "Some v \<in> set ?cs"
    using cs by (metis in_set_conv_decomp)
  then have "no_cull_callbacks (Some v)"
    using nc by (simp add: list_all_iff)
  then have ncs: "no_cull_callbacks (Some s)"
    by (simp add: no_cull_callbacks_def s_def set_csgObjectIndex_def)
  have ncp: "list_all no_cull_callbacks (butlast ?cs)"
    using nc by (auto simp: list_all_iff dest: in_set_butlastD)
  have cls: "vs_class s = OpenCSGVertexState (index (leaf csgobj))"
    by (simp add: s_def set_csgObjectIndex_def)
  have "build_subtraction e hl bg csgobj st
          = Inr (st\<lparr>last_color := (snd (resolve_color e (leaf_colormode hl bg CUTOUT) (color (leaf csgobj)) (last_color st))),
                   calls := calls st @ [Call_addColor (snd (resolve_color e (leaf_colormode hl bg CUTOUT) (color (leaf csgobj)) (last_color st))),
                              Call_create_surface ps (get_csgmode e hl bg (Some DIFFERENCE))
                                (matrix (leaf csgobj)) (snd (resolve_color e (leaf_colormode hl bg CUTOUT) (color (leaf csgobj)) (last_color st)))],
                   vertex_states := vertex_states st @ [Some cull_front_state] @ butlast ?cs @ [Some s, Some cull_disable_state],
                   prims := prims st
                      @ [OpenCSGVBOPrim Subtraction (getConvexity ps) (Some vs)]\<rparr>)"
    using ps bk bl prim
    by (simp add: build_subtraction_def Let_def s_def[symmetric])
  with cls ncs pre ncp show ?thesis
    by blast
qed

lemma replay_append: "replay se si (a @ b) = replay se si a @ replay se si b"
  by (simp add: replay_def expand_draws_def)

lemma cull_and_surface_append:
  "cull_and_surface (a @ b) = cull_and_surface a @ cull_and_surface b"
  by (simp add: cull_and_surface_def)

lemma cull_and_surface_callbacks:
  "list_all (\<lambda>c. \<not> is_cull_call c) cbs \<Longrightarrow> cull_and_surface (map GL cbs) = []"
  by (induction cbs) (simp_all add: cull_and_surface_def)

lemma view_one:
  assumes "no_cull_callbacks vsp"
  shows "cull_and_surface (replay se si [vsp])
           = (case vsp of None \<Rightarrow> []
              | Some v \<Rightarrow> if is_surface_class (vs_class v) then [Draw_call v] else [])"
proof (cases vsp)
  case None
  then show ?thesis
    by (simp add: replay_def expand_draws_def draw_state_def cull_and_surface_def)
next
  case (Some v)
  from assms Some have b: "cull_and_surface (map GL (glBegin v)) = []"
    and e: "cull_and_surface (map GL (glEnd v)) = []"
    by (simp_all add: no_cull_callbacks_def cull_and_surface_callbacks)
  have d: "cull_and_surface (VertexState_draw v)
             = (if is_surface_class (vs_class v) then [Draw_call v] else [])"
    using b e by (simp add: VertexState_draw_def cull_and_surface_append)
       (simp add: cull_and_surface_def)
  show ?thesis
    using Some d
    by (cases "vs_class v")
       (simp_all add: replay_def expand_draws_def draw_state_def select_uniform_def
          cull_and_surface_append split: option.splits,
        simp_all add: cull_and_surface_def)
qed

lemma view_pre:
  assumes "list_all (\<lambda>p. \<not> is_surface_state p) pre" "list_all no_cull_callbacks pre"
  shows "cull_and_surface (replay se si pre) = []"
  using assms
proof (induction pre)
  case Nil
  then show ?case by (simp add: replay_def expand_draws_def cull_and_surface_def)
next
  case (Cons p pre)
  have "cull_and_surface (replay se si [p]) = []"
    using Cons.prems view_one[of p se si]
    by (cases p) (simp_all add: is_surface_state_def)
  with Cons show ?case
    using replay_append[of se si "[p]" pre] by (simp add: cull_and_surface_append)
qed

lemma view_surface:
  assumes "vs_class s = OpenCSGVertexState i" "no_cull_callbacks (Some s)"
  shows "cull_and_surface (replay se si [Some s]) = [Draw_call s]"
  using assms view_one[of "Some s" se si] by simp

lemma view_cull_front:
  "cull_and_surface (replay se si [Some cull_front_state])
     = [GL (glEnable GL_CULL_FACE), GL (glCullFace GL_FRONT)]"
  by (simp add: replay_def expand_draws_def draw_state_def cull_front_state_def
        VertexState_default_def VertexState_draw_def cull_and_surface_def)

lemma view_cull_back:
  "cull_and_surface (replay se si [Some cull_back_state]) = [GL (glCullFace GL_BACK)]"
  by (simp add: replay_def expand_draws_def draw_state_def cull_back_state_def
        VertexState_default_def VertexState_draw_def cull_and_surface_def)

lemma view_cull_disable:
  "cull_and_surface (replay se si [Some cull_disable_state]) = [GL (glDisable GL_CULL_FACE)]"
  by (simp add: replay_def expand_draws_def draw_state_def cull_disable_state_def
        VertexState_default_def VertexState_draw_def cull_and_surface_def)

lemma example_env_writes: "writes_surfaces example_env"
  by (simp add: writes_surfaces_def example_env_def surface_written_def example_surface_def
        is_surface_state_def no_cull_callbacks_def)

lemma surface_draws_view:
  "length (filter is_surface_draw (cull_and_surface tr)) = surface_draws tr"
  by (induction tr) (simp_all add: surface_draws_def cull_and_surface_def)

lemma expand_draws_append: "expand_draws (a @ b) = expand_draws a @ expand_draws b"
  by (simp add: expand_draws_def)

lemma vbo_surface_draws:
  "filter is_surface_draw (expand_draws (render_product_vbo se si vp))
     = filter is_surface_draw (replay se si (states vp))"
  by (simp add: render_product_vbo_def expand_draws_append replay_def split: option.splits)
     (simp add: expand_draws_def)

lemma build_intersection_view:
  assumes ps: "as_PolySet (geom (leaf csgobj)) = Some ps"
      and w: "writes_surfaces e"
  shows "\<exists>st' new s vs.
           build_intersection e hl bg csgobj st = Inr st'
           \<and> vertex_states st' = vertex_states st @ new
           \<and> prims st' = prims st @ [OpenCSGVBOPrim Intersection (getConvexity ps) (Some vs)]
           \<and> vs_class s = OpenCSGVertexState (index (leaf csgobj))
           \<and> cull_and_surface (replay showedges si new)
               = (if alpha (fst (resolve_color e (leaf_colormode hl bg MATERIAL)
                                  (color (leaf csgobj)) (last_color st))) = 1
                  then [Draw_call s]
                  else [GL (glEnable GL_CULL_FACE), GL (glCullFace GL_FRONT), Draw_call s,
                        GL (glCullFace GL_BACK), Draw_call s, GL (glDisable GL_CULL_FACE)])"
proof (cases "alpha (fst (resolve_color e (leaf_colormode hl bg MATERIAL)
                                  (color (leaf csgobj)) (last_color st))) = 1")
  case True
  from build_intersection_opaque[OF ps w True] obtain pre s vs st' where
    b: "build_intersection e hl bg csgobj st = Inr st'"
    and v: "vertex_states st' = vertex_states st @ pre @ [Some s]"
    and pr: "prims st' = prims st @ [OpenCSGVBOPrim Intersection (getConvexity ps) (Some vs)]"
    and c: "vs_class s = OpenCSGVertexState (index (leaf csgobj))"
    and n: "no_cull_callbacks (Some s)"
    and p: "list_all (\<lambda>p. \<not> is_surface_state p) pre" "list_all no_cull_callbacks pre"
    by fastforce
  have "cull_and_surface (replay showedges si (pre @ [Some s])) = [Draw_call s]"
    by (simp add: replay_append cull_and_surface_append view_pre[OF p] view_surface[OF c n])
  with b v pr c True show ?thesis
    by auto
next
  case False
  from build_intersection_transparent[OF ps w False] obtain pre s vs st' where
    b: "build_intersection e hl bg csgobj st = Inr st'"
    and v: "vertex_states st' = vertex_states st @ [Some cull_front_state] @ pre
              @ [Some s, Some cull_back_state, Some s, Some cull_disable_state]"
    and pr: "prims st' = prims st @ [OpenCSGVBOPrim Intersection (getConvexity ps) (Some vs)]"
    and c: "vs_class s = OpenCSGVertexState (index (leaf csgobj))"
    and n: "no_cull_callbacks (Some s)"
    and p: "list_all (\<lambda>p. \<not> is_surface_state p) pre" "list_all no_cull_callbacks pre"
    by fastforce
  have "cull_and_surface (replay showedges si
           ([Some cull_front_state] @ pre @ [Some s] @ [Some cull_back_state] @ [Some s]
            @ [Some cull_disable_state]))
          = [GL (glEnable GL_CULL_FACE), GL (glCullFace GL_FRONT), Draw_call s,
             GL (glCullFace GL_BACK), Draw_call s, GL (glDisable GL_CULL_FACE)]"
    unfolding replay_append cull_and_surface_append
    by (simp add: view_pre[OF p] view_surface[OF c n] view_cull_front view_cull_back
          view_cull_disable)
  with b v pr c False show ?thesis
    by auto
qed

lemma immediate_single:
  assumes i: "intersections product = [csgobj]" and s: "subtractions product = []"
      and ps: "as_PolySet (geom (leaf csgobj)) = Some ps"
  shows "list_all (\<lambda>ev. \<not> is_compositor_call ev)
           (render_product_immediate e showedges si hl bg product)
         \<and> surface_draws (render_product_immediate e showedges si hl bg product)
             = (if alpha (setColor e (leaf_colormode hl bg MATERIAL) (color (leaf csgobj)) si) = 1
                then 1 else 2)"
proof -
  from ps obtain g where g: "geom (leaf csgobj) = Some g"
    using as_PolySet_Some by blast
  have "length (immediate_primitives e hl bg product) \<le> 1"
    using i s g by (simp add: immediate_primitives_def)
  from immediate_no_compositing[OF this]
  have a: "list_all (\<lambda>ev. \<not> is_compositor_call ev)
             (render_product_immediate e showedges si hl bg product)"
    by (simp add: list_all_iff)
  have "surface_draws (render_intersection e si hl bg csgobj)
          = (if alpha (setColor e (leaf_colormode hl bg MATERIAL) (color (leaf csgobj)) si) = 1
             then 1 else 2)"
    using ps by (simp add: render_intersection_def Let_def surface_draws_def select_uniform_def
                   split: option.splits)
  then have "surface_draws (render_product_immediate e showedges si hl bg product)
          = (if alpha (setColor e (leaf_colormode hl bg MATERIAL) (color (leaf csgobj)) si) = 1
             then 1 else 2)"
    using i s by (simp add: render_product_immediate_def Let_def surface_draws_def
                    split: option.splits)
  with a show ?thesis ..
qed

lemma vbo_single:
  assumes i: "intersections product = [csgobj]" and s: "subtractions product = []"
      and ps: "as_PolySet (geom (leaf csgobj)) = Some ps"
      and w: "writes_surfaces e"
  shows "\<exists>bp tr. build_product e feat hl bg product = Inr (bp, tr)
           \<and> list_all (\<lambda>ev. \<not> is_compositor_call ev) (render_product_vbo showedges si bp)
           \<and> surface_draws (expand_draws (render_product_vbo showedges si bp))
               = (if alpha (fst (resolve_color e (leaf_colormode hl bg MATERIAL)
                                  (color (leaf csgobj)) (default_Color4f e))) = 1
                  then 1 else 2)"
proof -
  let ?st0 = "\<lparr>last_color = default_Color4f e, prims = [], vertex_states = [],
               calls = [Call_addSurfaceData, Call_writeSurface, Call_add_shader_data,
                        Call_initializeSize (num_vertices e hl bg product)]\<rparr>"
  from build_intersection_view[OF ps w, of hl bg ?st0 showedges si] obtain st' new sf vs where
    b: "build_intersection e hl bg csgobj ?st0 = Inr st'"
    and v: "vertex_states st' = new"
    and pr: "prims st' = [OpenCSGVBOPrim Intersection (getConvexity ps) (Some vs)]"
    and c: "vs_class sf = OpenCSGVertexState (index (leaf csgobj))"
    and cv: "cull_and_surface (replay showedges si new)
               = (if alpha (fst (resolve_color e (leaf_colormode hl bg MATERIAL)
                                  (color (leaf csgobj)) (default_Color4f e))) = 1
                  then [Draw_call sf]
                  else [GL (glEnable GL_CULL_FACE), GL (glCullFace GL_FRONT), Draw_call sf,
                        GL (glCullFace GL_BACK), Draw_call sf, GL (glDisable GL_CULL_FACE)])"
    by auto
  let ?bp = "\<lparr>primitives = prims st', states = vertex_states st'\<rparr>"
  have bp: "build_product e feat hl bg product
              = Inr (?bp, calls st' @ unbind_buffers feat @ [Call_createInterleavedVBOs])"
    using i s b by (simp add: build_product_def Let_def)
  have "length (primitives ?bp) \<le> 1"
    using pr by simp
  from vbo_no_compositing[OF this]
  have a: "list_all (\<lambda>ev. \<not> is_compositor_call ev) (render_product_vbo showedges si ?bp)"
    by (simp add: list_all_iff)
  have "surface_draws (expand_draws (render_product_vbo showedges si ?bp))
          = surface_draws (replay showedges si new)"
    using v by (simp add: surface_draws_def vbo_surface_draws)
  also have "\<dots> = length (filter is_surface_draw (cull_and_surface (replay showedges si new)))"
    by (simp only: surface_draws_view)
  also have "\<dots> = (if alpha (fst (resolve_color e (leaf_colormode hl bg MATERIAL)
                                  (color (leaf csgobj)) (default_Color4f e))) = 1
                  then 1 else 2)"
    using c by (simp add: cv)
  finally show ?thesis
    using bp a by blast
qed

lemma draw_state_draws:
  "filter is_draw_call (draw_state showedges si vsp)
     = map Call_VertexState_draw
         (filter (\<lambda>v. showedges \<or> vs_class v \<noteq> VBOShaderVertexState) (retained [vsp]))"
  by (cases vsp)
     (auto simp: draw_state_def retained_def select_uniform_def
        split: option.splits VertexState_class.splits)

lemma retained_Cons: "retained (p # vss) = retained [p] @ retained vss"
  by (simp add: retained_def)

lemma states_draws:
  "filter is_draw_call (concat (map (draw_state showedges si) vss))
     = map Call_VertexState_draw
         (filter (\<lambda>v. showedges \<or> vs_class v \<noteq> VBOShaderVertexState) (retained vss))"
proof (induction vss)
  case Nil
  then show ?case by (simp add: retained_def)
next
  case (Cons p vss)
  then show ?case
    using draw_state_draws[of showedges si p] retained_Cons[of p vss] by simp
qed

lemma build_intersection_shape:
  assumes "build_intersection e hl bg c st = Inr st'"
  shows "case as_PolySet (geom (leaf c)) of
           None \<Rightarrow> st' = st
         | Some ps \<Rightarrow>
             last_color st' = snd (resolve_color e (leaf_colormode hl bg MATERIAL)
                                     (color (leaf c)) (last_color st))
             \<and> calls st' = calls st
                  @ [Call_addColor (last_color st'),
                     Call_create_surface ps (get_csgmode e hl bg None) (matrix (leaf c))
                       (last_color st')]"
  using assms
  by (auto simp: build_intersection_def Let_def split: option.splits sum.splits if_splits)

lemma build_subtraction_shape:
  assumes "build_subtraction e hl bg c st = Inr st'"
  shows "case as_PolySet (geom (leaf c)) of
           None \<Rightarrow> st' = st
         | Some ps \<Rightarrow>
             last_color st' = snd (resolve_color e (leaf_colormode hl bg CUTOUT)
                                     (color (leaf c)) (last_color st))
             \<and> calls st' = calls st
                  @ [Call_addColor (last_color st'),
                     Call_create_surface ps (get_csgmode e hl bg (Some DIFFERENCE))
                       (matrix (leaf c)) (last_color st')]"
  using assms
  by (auto simp: build_subtraction_def Let_def split: option.splits sum.splits if_splits)

lemma intersections_binds:
  "foldE (build_intersection e hl bg) cs st = Inr st'
     \<Longrightarrow> filter is_bind_call (calls st') = filter is_bind_call (calls st)"
proof (induction cs arbitrary: st)
  case Nil
  then show ?case by simp
next
  case (Cons c cs)
  from Cons.prems obtain st1 where
    s: "build_intersection e hl bg c st = Inr st1" and r: "foldE (build_intersection e hl bg) cs st1 = Inr st'"
    by (auto split: sum.splits)
  from build_intersection_shape[OF s]
  have "filter is_bind_call (calls st1) = filter is_bind_call (calls st)"
    by (auto split: option.splits)
  with Cons.IH[OF r] show ?case by simp
qed

lemma subtractions_binds:
  "foldE (build_subtraction e hl bg) cs st = Inr st'
     \<Longrightarrow> filter is_bind_call (calls st') = filter is_bind_call (calls st)"
proof (induction cs arbitrary: st)
  case Nil
  then show ?case by simp
next
  case (Cons c cs)
  from Cons.prems obtain st1 where
    s: "build_subtraction e hl bg c st = Inr st1" and r: "foldE (build_subtraction e hl bg) cs st1 = Inr st'"
    by (auto split: sum.splits)
  from build_subtraction_shape[OF s]
  have "filter is_bind_call (calls st1) = filter is_bind_call (calls st)"
    by (auto split: option.splits)
  with Cons.IH[OF r] show ?case by simp
qed

lemma build_product_calls:
  assumes "build_product e feat hl bg product = Inr (bp, tr)"
  shows "\<exists>st1 st2.
           foldE (build_intersection e hl bg) (intersections product)
             \<lparr>last_color = default_Color4f e, prims = [], vertex_states = [],
              calls = [Call_addSurfaceData, Call_writeSurface, Call_add_shader_data,
                       Call_initializeSize (num_vertices e hl bg product)]\<rparr> = Inr st1
           \<and> foldE (build_subtraction e hl bg) (subtractions product) st1 = Inr st2
           \<and> bp = \<lparr>primitives = prims st2, states = vertex_states st2\<rparr>
           \<and> tr = calls st2 @ unbind_buffers feat @ [Call_createInterleavedVBOs]"
  using assms by (auto simp: build_product_def Let_def split: sum.splits)

lemma resolve_color_snd:
  "snd (resolve_color e colormode c lc)
     = (if fst (getShaderColor e colormode c (default_Color4f e))
        then snd (getShaderColor e colormode c (default_Color4f e)) else lc)"
  by (simp add: resolve_color_def Let_def)

lemma retained_colors_Cons:
  "retained_colors lc (r # rs)
     = (if fst r then snd r else lc) # retained_colors (if fst r then snd r else lc) rs"
  by simp

lemma retained_colors_length: "length (retained_colors lc rs) = length rs"
  by (induction rs arbitrary: lc) simp_all

lemma retained_colors_append:
  "retained_colors lc (rs @ rs')
     = retained_colors lc rs @ retained_colors (last (lc # retained_colors lc rs)) rs'"
  by (induction rs arbitrary: lc) simp_all

lemma retained_colors_nth:
  "i < length rs \<Longrightarrow>
     retained_colors lc rs ! i
       = (if fst (rs ! i) then snd (rs ! i)
          else if i = 0 then lc else retained_colors lc rs ! (i - 1))"
proof (induction rs arbitrary: lc i)
  case Nil
  then show ?case by simp
next
  case (Cons r rs)
  show ?case
  proof (cases i)
    case 0
    then show ?thesis by simp
  next
    case (Suc j)
    with Cons.prems have j: "j < length rs" by simp
    show ?thesis
      using Cons.IH[OF j] Suc by (cases j) simp_all
  qed
qed

lemma surface_colors_append:
  "surface_colors (a @ b) = surface_colors a @ surface_colors b"
  "added_colors (a @ b) = added_colors a @ added_colors b"
  by (simp_all add: surface_colors_def added_colors_def)

lemma leaf_colors:
  assumes "\<And>c st st'. f c st = Inr st' \<Longrightarrow>
             (case as_PolySet (geom (leaf c)) of
                None \<Rightarrow> st' = st
              | Some ps \<Rightarrow>
                  last_color st' = snd (resolve_color e mode (color (leaf c)) (last_color st))
                  \<and> calls st' = calls st
                       @ [Call_addColor (last_color st'),
                          Call_create_surface ps (csgmode :: csgmode_e) (matrix (leaf c))
                            (last_color st')])"
      and "foldE f cs st = Inr st'"
  shows "surface_colors (calls st')
           = surface_colors (calls st)
             @ retained_colors (last_color st)
                 (map (\<lambda>c. getShaderColor e mode (color (leaf c)) (default_Color4f e))
                    (filter is_polygon_leaf cs))
         \<and> added_colors (calls st')
           = added_colors (calls st)
             @ retained_colors (last_color st)
                 (map (\<lambda>c. getShaderColor e mode (color (leaf c)) (default_Color4f e))
                    (filter is_polygon_leaf cs))
         \<and> last_color st'
           = last (last_color st
                   # retained_colors (last_color st)
                       (map (\<lambda>c. getShaderColor e mode (color (leaf c)) (default_Color4f e))
                          (filter is_polygon_leaf cs)))"
  using assms(2)
proof (induction cs arbitrary: st)
  case Nil
  then show ?case by simp
next
  case (Cons c cs)
  from Cons.prems obtain st1 where
    s: "f c st = Inr st1" and r: "foldE f cs st1 = Inr st'"
    by (auto split: sum.splits)
  note ih = Cons.IH[OF r]
  show ?case
  proof (cases "as_PolySet (geom (leaf c))")
    case None
    with assms(1)[OF s] have "st1 = st" by simp
    with ih None show ?thesis by (simp add: is_polygon_leaf_def)
  next
    case (Some ps)
    with assms(1)[OF s] have
      l: "last_color st1 = snd (resolve_color e mode (color (leaf c)) (last_color st))"
      and c: "calls st1 = calls st
                @ [Call_addColor (last_color st1),
                   Call_create_surface ps csgmode (matrix (leaf c)) (last_color st1)]"
      by simp_all
    have p: "is_polygon_leaf c"
      using Some by (simp add: is_polygon_leaf_def)
    have sc: "surface_colors (calls st1) = surface_colors (calls st) @ [last_color st1]"
      "added_colors (calls st1) = added_colors (calls st) @ [last_color st1]"
      by (subst c, simp add: surface_colors_def added_colors_def)+
    show ?thesis
      using ih p sc
      by (simp only: filter.simps list.map if_True retained_colors_Cons
            l[unfolded resolve_color_snd, symmetric] append_assoc append.simps last.simps
            list.distinct if_False)
  qed
qed

lemma concat_map_option:
  "concat (map (\<lambda>c. case g c of None \<Rightarrow> [] | Some x \<Rightarrow> [f c x]) cs)
     = map (\<lambda>c. f c (the (g c))) (filter (\<lambda>c. g c \<noteq> None) cs)"
  by (induction cs) (auto split: option.splits)

lemma immediate_primitives_eq:
  "immediate_primitives e hl bg product
     = map (\<lambda>c. createCSGPrimitive e c (the (geom (leaf c))) Intersection hl bg INTERSECTION)
         (filter has_geometry (intersections product))
       @ map (\<lambda>c. createCSGPrimitive e c (the (geom (leaf c))) Subtraction hl bg DIFFERENCE)
           (filter has_geometry (subtractions product))"
  unfolding immediate_primitives_def has_geometry_def
  using concat_map_option[where g = "\<lambda>c. geom (leaf c)"
          and f = "\<lambda>c g. createCSGPrimitive e c g Intersection hl bg INTERSECTION"
          and cs = "intersections product"]
        concat_map_option[where g = "\<lambda>c. geom (leaf c)"
          and f = "\<lambda>c g. createCSGPrimitive e c g Subtraction hl bg DIFFERENCE"
          and cs = "subtractions product"]
  by simp

lemma skipped_leaf:
  assumes "as_PolySet (geom (leaf c)) = None"
  shows "build_intersection e hl bg c st = Inr st" "build_subtraction e hl bg c st = Inr st"
    "render_intersection e si hl bg c = []" "render_subtraction e si hl bg c = []"
  using assms
  by (simp_all add: build_intersection_def build_subtraction_def render_intersection_def
        render_subtraction_def)

lemma intersections_prims:
  assumes w: "writes_surfaces e"
  shows "\<exists>st'. foldE (build_intersection e hl bg) cs st = Inr st'
           \<and> map prim_tag (prims st')
               = map prim_tag (prims st)
                 @ map (\<lambda>c. (Intersection, getConvexity (the (geom (leaf c)))))
                     (filter is_polygon_leaf cs)"
proof (induction cs arbitrary: st)
  case Nil
  then show ?case by simp
next
  case (Cons c cs)
  show ?case
  proof (cases "as_PolySet (geom (leaf c))")
    case None
    then show ?thesis
      using Cons.IH[of st] skipped_leaf(1)[OF None] by (simp add: is_polygon_leaf_def)
  next
    case (Some ps)
    from build_intersection_view[OF Some w, of hl bg st False None] obtain st1 vs where
      b: "build_intersection e hl bg c st = Inr st1"
      and p: "prims st1 = prims st @ [OpenCSGVBOPrim Intersection (getConvexity ps) (Some vs)]"
      by blast
    have g: "the (geom (leaf c)) = ps"
      using as_PolySet_Some[OF Some] by simp
    have pl: "is_polygon_leaf c"
      using Some by (simp add: is_polygon_leaf_def)
    from Cons.IH[of st1] obtain st' where
      "foldE (build_intersection e hl bg) cs st1 = Inr st'"
      "map prim_tag (prims st')
               = map prim_tag (prims st1)
                 @ map (\<lambda>c. (Intersection, getConvexity (the (geom (leaf c)))))
                     (filter is_polygon_leaf cs)"
      by blast
    then show ?thesis
      using b p g pl by simp
  qed
qed

lemma subtractions_prims:
  assumes w: "writes_surfaces e"
  shows "\<exists>st'. foldE (build_subtraction e hl bg) cs st = Inr st'
           \<and> map prim_tag (prims st')
               = map prim_tag (prims st)
                 @ map (\<lambda>c. (Subtraction, getConvexity (the (geom (leaf c)))))
                     (filter is_polygon_leaf cs)"
proof (induction cs arbitrary: st)
  case Nil
  then show ?case by simp
next
  case (Cons c cs)
  show ?case
  proof (cases "as_PolySet (geom (leaf c))")
    case None
    then show ?thesis
      using Cons.IH[of st] skipped_leaf(2)[OF None] by (simp add: is_polygon_leaf_def)
  next
    case (Some ps)
    from build_subtraction_written[OF Some w, of hl bg st] obtain st1 vs where
      b: "build_subtraction e hl bg c st = Inr st1"
      and p: "prims st1 = prims st @ [OpenCSGVBOPrim Subtraction (getConvexity ps) (Some vs)]"
      by fastforce
    have g: "the (geom (leaf c)) = ps"
      using as_PolySet_Some[OF Some] by simp
    have pl: "is_polygon_leaf c"
      using Some by (simp add: is_polygon_leaf_def)
    from Cons.IH[of st1] obtain st' where
      "foldE (build_subtraction e hl bg) cs st1 = Inr st'"
      "map prim_tag (prims st')
               = map prim_tag (prims st1)
                 @ map (\<lambda>c. (Subtraction, getConvexity (the (geom (leaf c)))))
                     (filter is_polygon_leaf cs)"
      by blast
    then show ?thesis
      using b p g pl by simp
  qed
qed

lemma build_product_prims:
  assumes w: "writes_surfaces e"
  shows "\<exists>bp tr. build_product e feat hl bg product = Inr (bp, tr)
           \<and> map prim_tag (primitives bp)
               = map (\<lambda>c. (Intersection, getConvexity (the (geom (leaf c)))))
                   (filter is_polygon_leaf (intersections product))
                 @ map (\<lambda>c. (Subtraction, getConvexity (the (geom (leaf c)))))
                     (filter is_polygon_leaf (subtractions product))"
proof -
  let ?st0 = "\<lparr>last_color = default_Color4f e, prims = [], vertex_states = [],
               calls = [Call_addSurfaceData, Call_writeSurface, Call_add_shader_data,
                        Call_initializeSize (num_vertices e hl bg product)]\<rparr>"
  from intersections_prims[OF w, of hl bg "intersections product" ?st0] obtain st1 where
    f1: "foldE (build_intersection e hl bg) (intersections product) ?st0 = Inr st1"
    and p1: "map prim_tag (prims st1)
               = map (\<lambda>c. (Intersection, getConvexity (the (geom (leaf c)))))
                   (filter is_polygon_leaf (intersections product))"
    by auto
  from subtractions_prims[OF w, of hl bg "subtractions product" st1] obtain st2 where
    f2: "foldE (build_subtraction e hl bg) (subtractions product) st1 = Inr st2"
    and p2: "map prim_tag (prims st2)
               = map prim_tag (prims st1)
                 @ map (\<lambda>c. (Subtraction, getConvexity (the (geom (leaf c)))))
                     (filter is_polygon_leaf (subtractions product))"
    by auto
  have "build_product e feat hl bg product
          = Inr (\<lparr>primitives = prims st2, states = vertex_states st2\<rparr>,
                 calls st2 @ unbind_buffers feat @ [Call_createInterleavedVBOs])"
    using f1 f2 by (simp add: build_product_def Let_def)
  with p1 p2 show ?thesis
    by simp
qed

lemma build_products_length:
  "build_products e feat hl bg ps = Inr (bps, tr) \<Longrightarrow> length bps = length ps"
  by (induction ps arbitrary: bps tr) (auto split: sum.splits prod.splits)

lemma createCSGProducts_result:
  assumes "createCSGProducts e feat prods hl bg r = Inr (r', tr)"
  shows "root_products r' = root_products r \<and> highlights_products r' = highlights_products r
         \<and> background_products r' = background_products r
         \<and> length (vbo_vertex_products r')
             = length (vbo_vertex_products r) + length (products prods)
         \<and> (products prods = [] \<longrightarrow> r' = r \<and> tr = [])"
  using assms build_products_length[of e feat hl bg "products prods"]
  by (auto simp: createCSGProducts_def Let_def split: sum.splits prod.splits if_splits)

lemma create_group_result:
  assumes "create_group e feat pg hl bg r = Inr (r', tr)"
  shows "root_products r' = root_products r \<and> highlights_products r' = highlights_products r
         \<and> background_products r' = background_products r
         \<and> (vbo_vertex_products r' = [] \<longrightarrow> r' = r \<and> tr = [])"
proof (cases pg)
  case None
  with assms show ?thesis by (simp add: create_group_def)
next
  case (Some prods)
  with assms have "createCSGProducts e feat prods hl bg r = Inr (r', tr)"
    by (simp add: create_group_def)
  from createCSGProducts_result[OF this] have
    g: "root_products r' = root_products r" "highlights_products r' = highlights_products r"
      "background_products r' = background_products r"
    and l: "length (vbo_vertex_products r')
              = length (vbo_vertex_products r) + length (products prods)"
    and z: "products prods = [] \<longrightarrow> r' = r \<and> tr = []"
    by blast+
  have "vbo_vertex_products r' = [] \<longrightarrow> r' = r \<and> tr = []"
  proof
    assume "vbo_vertex_products r' = []"
    with l have "products prods = []" by simp
    with z show "r' = r \<and> tr = []" by blast
  qed
  with g show ?thesis by blast
qed

lemma compositor_received_append:
  "compositor_received (a @ b) = compositor_received a @ compositor_received b"
  by (simp add: compositor_received_def)

lemma compositor_received_none:
  "list_all (\<lambda>ev. \<not> is_compositor_call ev) tr \<Longrightarrow> compositor_received tr = []"
proof (induction tr)
  case Nil
  then show ?case by (simp add: compositor_received_def)
next
  case (Cons ev tr)
  then show ?case by (cases ev) (simp_all add: compositor_received_def)
qed

lemma leaves_not_compositor:
  "list_all (\<lambda>ev. \<not> is_compositor_call ev)
     (concat (map (render_intersection e si hl bg) cs))"
  "list_all (\<lambda>ev. \<not> is_compositor_call ev)
     (concat (map (render_subtraction e si hl bg) cs))"
  "list_all (\<lambda>ev. \<not> is_compositor_call ev)
     (concat (map (draw_state showedges si) vss))"
proof -
  show "list_all (\<lambda>ev. \<not> is_compositor_call ev)
     (concat (map (render_intersection e si hl bg) cs))"
    by (rule list_all_concat_map)
       (use render_intersection_calls[where f = GL_EQUAL] in \<open>simp add: list_all_iff\<close>)
  show "list_all (\<lambda>ev. \<not> is_compositor_call ev)
     (concat (map (render_subtraction e si hl bg) cs))"
    by (rule list_all_concat_map)
       (use render_subtraction_calls[where f = GL_EQUAL] in \<open>simp add: list_all_iff\<close>)
  show "list_all (\<lambda>ev. \<not> is_compositor_call ev)
     (concat (map (draw_state showedges si) vss))"
    by (rule list_all_concat_map)
       (use draw_state_calls[where f = GL_EQUAL] in \<open>simp add: list_all_iff\<close>)
qed

lemma immediate_compositor:
  "compositor_received (render_product_immediate e showedges si hl bg product)
     = (if 1 < length (immediate_primitives e hl bg product)
        then [immediate_primitives e hl bg product] else [])"
  unfolding render_product_immediate_def Let_def compositor_received_append
    compositor_received_none[OF leaves_not_compositor(1)]
    compositor_received_none[OF leaves_not_compositor(2)]
  by (auto simp: compositor_received_def split: option.splits)

lemma vbo_compositor:
  "compositor_received (render_product_vbo showedges si bp)
     = (if 1 < length (primitives bp) then [primitives bp] else [])"
  unfolding render_product_vbo_def compositor_received_append
    compositor_received_none[OF leaves_not_compositor(3)]
  by (auto simp: compositor_received_def split: option.splits)


section \<open>The claims\<close>

text \<open>
  C1, as amended. A product with at most one primitive is not composited in either render
  path: the compositor is not called and the depth function is not set to equal. For a
  product with one intersection leaf (a polygon surface) and no subtraction leaf the
  compositor is not called, and the surface of the leaf is drawn once when the alpha of its
  resolved colour is 1.0 and twice otherwise, in the immediate path and in the buffer path
  (where the surface write has to leave its surface state at the back of the container).
\<close>

theorem single_primitive_no_compositing:
  "(length (immediate_primitives e hl bg product) \<le> 1 \<longrightarrow>
      list_all (\<lambda>ev. \<not> is_compositor_call ev \<and> ev \<noteq> GL (glDepthFunc GL_EQUAL))
        (render_product_immediate e showedges si hl bg product))
   \<and> (length (primitives vp) \<le> 1 \<longrightarrow>
      list_all (\<lambda>ev. \<not> is_compositor_call ev \<and> ev \<noteq> GL (glDepthFunc GL_EQUAL))
        (render_product_vbo showedges si vp))
   \<and> (intersections product = [csgobj] \<and> subtractions product = []
        \<and> as_PolySet (geom (leaf csgobj)) = Some ps \<longrightarrow>
      list_all (\<lambda>ev. \<not> is_compositor_call ev)
        (render_product_immediate e showedges si hl bg product)
      \<and> surface_draws (render_product_immediate e showedges si hl bg product)
          = (if alpha (setColor e (leaf_colormode hl bg MATERIAL) (color (leaf csgobj)) si) = 1
             then 1 else 2))
   \<and> (intersections product = [csgobj] \<and> subtractions product = []
        \<and> as_PolySet (geom (leaf csgobj)) = Some ps \<and> writes_surfaces e \<longrightarrow>
      (\<exists>bp tr. build_product e feat hl bg product = Inr (bp, tr)
         \<and> list_all (\<lambda>ev. \<not> is_compositor_call ev) (render_product_vbo showedges si bp)
         \<and> surface_draws (expand_draws (render_product_vbo showedges si bp))
             = (if alpha (fst (resolve_color e (leaf_colormode hl bg MATERIAL)
                                (color (leaf csgobj)) (default_Color4f e))) = 1
                then 1 else 2)))"
proof (intro conjI impI)
  assume "length (immediate_primitives e hl bg product) \<le> 1"
  then show "list_all (\<lambda>ev. \<not> is_compositor_call ev \<and> ev \<noteq> GL (glDepthFunc GL_EQUAL))
        (render_product_immediate e showedges si hl bg product)"
    by (rule immediate_no_compositing)
next
  assume "length (primitives vp) \<le> 1"
  then show "list_all (\<lambda>ev. \<not> is_compositor_call ev \<and> ev \<noteq> GL (glDepthFunc GL_EQUAL))
        (render_product_vbo showedges si vp)"
    by (rule vbo_no_compositing)
next
  assume a: "intersections product = [csgobj] \<and> subtractions product = []
        \<and> as_PolySet (geom (leaf csgobj)) = Some ps"
  from a immediate_single[of product csgobj ps e showedges si hl bg]
  show "list_all (\<lambda>ev. \<not> is_compositor_call ev)
        (render_product_immediate e showedges si hl bg product)"
    by (elim conjE) (rule conjunct1)
  from a immediate_single[of product csgobj ps e showedges si hl bg]
  show "surface_draws (render_product_immediate e showedges si hl bg product)
          = (if alpha (setColor e (leaf_colormode hl bg MATERIAL) (color (leaf csgobj)) si) = 1
             then 1 else 2)"
    by (elim conjE) (rule conjunct2)
next
  assume a: "intersections product = [csgobj] \<and> subtractions product = []
        \<and> as_PolySet (geom (leaf csgobj)) = Some ps \<and> writes_surfaces e"
  then show "\<exists>bp tr. build_product e feat hl bg product = Inr (bp, tr)
         \<and> list_all (\<lambda>ev. \<not> is_compositor_call ev) (render_product_vbo showedges si bp)
         \<and> surface_draws (expand_draws (render_product_vbo showedges si bp))
             = (if alpha (fst (resolve_color e (leaf_colormode hl bg MATERIAL)
                                (color (leaf csgobj)) (default_Color4f e))) = 1
                then 1 else 2)"
    by (elim conjE) (rule vbo_single)
qed

theorem single_primitive_no_compositing_witness:
  "list_all (\<lambda>ev. \<not> is_compositor_call ev \<and> ev \<noteq> GL (glDepthFunc GL_EQUAL))
        (render_product_immediate example_env False None False False
           (example_product [example_leaf (1/2)] []))
   \<and> list_all (\<lambda>ev. \<not> is_compositor_call ev \<and> ev \<noteq> GL (glDepthFunc GL_EQUAL))
        (render_product_vbo False None \<lparr>primitives = [], states = [Some example_surface]\<rparr>)
   \<and> surface_draws (render_product_immediate example_env False None False False
           (example_product [example_leaf (1/2)] [])) = 2
   \<and> (\<exists>bp tr. build_product example_env (example_features False False) False False
                  (example_product [example_leaf (1/2)] []) = Inr (bp, tr)
         \<and> list_all (\<lambda>ev. \<not> is_compositor_call ev) (render_product_vbo False None bp)
         \<and> surface_draws (expand_draws (render_product_vbo False None bp)) = 2)"
proof -
  have h: "intersections (example_product [example_leaf (1/2)] []) = [example_leaf (1/2)]"
    "subtractions (example_product [example_leaf (1/2)] []) = []"
    "as_PolySet (geom (leaf (example_leaf (1/2)))) = Some (PolySet 1 0)"
    by (simp_all add: example_product_def example_leaf_def)
  have l: "length (immediate_primitives example_env False False
             (example_product [example_leaf (1/2)] [])) \<le> 1"
    "length (primitives \<lparr>primitives = [], states = [Some example_surface]\<rparr>) \<le> 1"
    by (simp_all add: immediate_primitives_def example_product_def example_leaf_def)
  have a: "alpha (setColor example_env (leaf_colormode False False MATERIAL)
             (color (leaf (example_leaf (1/2)))) None) \<noteq> 1"
    "alpha (fst (resolve_color example_env (leaf_colormode False False MATERIAL)
             (color (leaf (example_leaf (1/2)))) (default_Color4f example_env))) \<noteq> 1"
    by (simp_all add: example_env_def example_leaf_def resolve_color_def)
  note t = single_primitive_no_compositing[where e = example_env and hl = False and bg = False
      and product = "example_product [example_leaf (1/2)] []" and showedges = False
      and si = None and vp = "\<lparr>primitives = [], states = [Some example_surface]\<rparr>"
      and csgobj = "example_leaf (1/2)" and ps = "PolySet 1 0"
      and feat = "example_features False False"]
  from t l(1) have c1: "list_all (\<lambda>ev. \<not> is_compositor_call ev \<and> ev \<noteq> GL (glDepthFunc GL_EQUAL))
        (render_product_immediate example_env False None False False
           (example_product [example_leaf (1/2)] []))"
    by (elim conjE) (erule mp)
  from t l(2) have c2: "list_all (\<lambda>ev. \<not> is_compositor_call ev \<and> ev \<noteq> GL (glDepthFunc GL_EQUAL))
        (render_product_vbo False None \<lparr>primitives = [], states = [Some example_surface]\<rparr>)"
    by (elim conjE) (erule mp)
  from t h have "surface_draws (render_product_immediate example_env False None False False
           (example_product [example_leaf (1/2)] []))
     = (if alpha (setColor example_env (leaf_colormode False False MATERIAL)
             (color (leaf (example_leaf (1/2)))) None) = 1 then 1 else 2)"
    by (elim conjE) (erule impE, intro conjI, assumption+, elim conjE, assumption)
  with a(1) have c3: "surface_draws (render_product_immediate example_env False None False False
           (example_product [example_leaf (1/2)] [])) = 2"
    by (simp only: if_False)
  from t h example_env_writes
  have "\<exists>bp tr. build_product example_env (example_features False False) False False
                  (example_product [example_leaf (1/2)] []) = Inr (bp, tr)
         \<and> list_all (\<lambda>ev. \<not> is_compositor_call ev) (render_product_vbo False None bp)
         \<and> surface_draws (expand_draws (render_product_vbo False None bp))
            = (if alpha (fst (resolve_color example_env (leaf_colormode False False MATERIAL)
             (color (leaf (example_leaf (1/2)))) (default_Color4f example_env))) = 1
               then 1 else 2)"
    by (elim conjE) (erule impE, intro conjI, assumption+)
  with a(2) have c4: "\<exists>bp tr. build_product example_env (example_features False False) False False
                  (example_product [example_leaf (1/2)] []) = Inr (bp, tr)
         \<and> list_all (\<lambda>ev. \<not> is_compositor_call ev) (render_product_vbo False None bp)
         \<and> surface_draws (expand_draws (render_product_vbo False None bp)) = 2"
    by (simp only: if_False)
  from c1 c2 c3 c4 show ?thesis
    by (intro conjI)
qed

text \<open>
  C1 as stated fails: the only leaf of this product is an intersection leaf with a polygon
  surface and alpha 0.5, and the immediate path draws its surface twice.
\<close>

theorem transparent_single_leaf_drawn_twice:
  "intersections (example_product [example_leaf (1/2)] []) = [example_leaf (1/2)]
   \<and> subtractions (example_product [example_leaf (1/2)] []) = []
   \<and> geom (leaf (example_leaf (1/2))) = Some (PolySet 1 0)
   \<and> surface_draws (render_product_immediate example_env False None False False
        (example_product [example_leaf (1/2)] [])) = 2"
  by (simp add: example_product_def example_leaf_def example_env_def surface_draws_def
        render_product_immediate_def render_intersection_def immediate_primitives_def
        createCSGPrimitive_def Let_def leaf_colormode_def)

text \<open>
  C2, as amended. When a product has more than one primitive, the compositor is called once
  with the list of its primitives; with at most one primitive it is not called. In the
  immediate path the list holds one primitive for every leaf that has a geometry, of whatever
  class, intersections first and in the order of the leaves; the primitive of a geometry that
  is not a polygon surface holds no geometry and renders nothing. In the buffer path the list
  holds one primitive for every leaf whose geometry is a polygon surface, in the same order
  (the surface writes have to leave their surface states at the back of the container). A
  leaf without geometry, or whose geometry is not a polygon surface, adds no vertex state and
  no primitive of the buffer path, and is not drawn in the immediate path.
\<close>

theorem primitives_per_leaf:
  "compositor_received (render_product_immediate e showedges si hl bg product)
     = (if 1 < length (filter has_geometry (intersections product))
               + length (filter has_geometry (subtractions product))
        then [map (\<lambda>c. createCSGPrimitive e c (the (geom (leaf c))) Intersection hl bg
                          INTERSECTION)
                (filter has_geometry (intersections product))
              @ map (\<lambda>c. createCSGPrimitive e c (the (geom (leaf c))) Subtraction hl bg
                            DIFFERENCE)
                  (filter has_geometry (subtractions product))]
        else [])
   \<and> Primitive_render (createCSGPrimitive e c (OtherGeometry cv) operation hl bg type) = []
   \<and> (as_PolySet (geom (leaf c)) = None \<longrightarrow>
        build_intersection e hl bg c st = Inr st \<and> build_subtraction e hl bg c st = Inr st
        \<and> render_intersection e si hl bg c = [] \<and> render_subtraction e si hl bg c = [])
   \<and> (writes_surfaces e \<longrightarrow>
        (\<exists>bp tr. build_product e feat hl bg product = Inr (bp, tr)
           \<and> compositor_received (render_product_vbo showedges si bp)
               = (if 1 < length (primitives bp) then [primitives bp] else [])
           \<and> map prim_tag (primitives bp)
               = map (\<lambda>c. (Intersection, getConvexity (the (geom (leaf c)))))
                   (filter is_polygon_leaf (intersections product))
                 @ map (\<lambda>c. (Subtraction, getConvexity (the (geom (leaf c)))))
                     (filter is_polygon_leaf (subtractions product))))"
proof (intro conjI impI)
  show "compositor_received (render_product_immediate e showedges si hl bg product)
     = (if 1 < length (filter has_geometry (intersections product))
               + length (filter has_geometry (subtractions product))
        then [map (\<lambda>c. createCSGPrimitive e c (the (geom (leaf c))) Intersection hl bg
                          INTERSECTION)
                (filter has_geometry (intersections product))
              @ map (\<lambda>c. createCSGPrimitive e c (the (geom (leaf c))) Subtraction hl bg
                            DIFFERENCE)
                  (filter has_geometry (subtractions product))]
        else [])"
    unfolding immediate_compositor immediate_primitives_eq by simp
  show "Primitive_render (createCSGPrimitive e c (OtherGeometry cv) operation hl bg type) = []"
    by (simp add: createCSGPrimitive_def)
next
  assume n: "as_PolySet (geom (leaf c)) = None"
  show "build_intersection e hl bg c st = Inr st" by (rule skipped_leaf(1)[OF n])
  show "build_subtraction e hl bg c st = Inr st" by (rule skipped_leaf(2)[OF n])
  show "render_intersection e si hl bg c = []" by (rule skipped_leaf(3)[OF n])
  show "render_subtraction e si hl bg c = []" by (rule skipped_leaf(4)[OF n])
next
  assume "writes_surfaces e"
  from build_product_prims[OF this, of feat hl bg product] obtain bp tr where
    b: "build_product e feat hl bg product = Inr (bp, tr)"
    and p: "map prim_tag (primitives bp)
               = map (\<lambda>c. (Intersection, getConvexity (the (geom (leaf c)))))
                   (filter is_polygon_leaf (intersections product))
                 @ map (\<lambda>c. (Subtraction, getConvexity (the (geom (leaf c)))))
                     (filter is_polygon_leaf (subtractions product))"
    by blast
  from b p vbo_compositor[of showedges si bp]
  show "\<exists>bp tr. build_product e feat hl bg product = Inr (bp, tr)
           \<and> compositor_received (render_product_vbo showedges si bp)
               = (if 1 < length (primitives bp) then [primitives bp] else [])
           \<and> map prim_tag (primitives bp)
               = map (\<lambda>c. (Intersection, getConvexity (the (geom (leaf c)))))
                   (filter is_polygon_leaf (intersections product))
                 @ map (\<lambda>c. (Subtraction, getConvexity (the (geom (leaf c)))))
                     (filter is_polygon_leaf (subtractions product))"
    by blast
qed

theorem primitives_per_leaf_witness:
  "compositor_received (render_product_immediate example_env False None False False
      (example_product [example_leaf 1, example_other_leaf] [example_leaf (1/2)]))
     = [[OpenCSGPrim Intersection 1 (Some (PolySet 1 0)) [] 0,
         OpenCSGPrim Intersection 2 None [] 0,
         OpenCSGPrim Subtraction 1 (Some (PolySet 1 0)) [] 0]]
   \<and> build_intersection example_env False False example_other_leaf example_state
     = Inr example_state
   \<and> (\<exists>bp tr. build_product example_env (example_features False False) False False
                  (example_product [example_leaf 1, example_other_leaf] [example_leaf (1/2)])
                = Inr (bp, tr)
         \<and> compositor_received (render_product_vbo False None bp) = [primitives bp]
         \<and> map prim_tag (primitives bp) = [(Intersection, 1), (Subtraction, 1)])"
proof -
  note t = primitives_per_leaf[where e = example_env and hl = False and bg = False
      and product = "example_product [example_leaf 1, example_other_leaf] [example_leaf (1/2)]"
      and c = example_other_leaf and st = example_state and showedges = False and si = None
      and feat = "example_features False False"]
  have n: "as_PolySet (geom (leaf example_other_leaf)) = None"
    by (simp add: example_other_leaf_def)
  from t[THEN conjunct1]
  have c1: "compositor_received (render_product_immediate example_env False None False False
      (example_product [example_leaf 1, example_other_leaf] [example_leaf (1/2)]))
     = [[OpenCSGPrim Intersection 1 (Some (PolySet 1 0)) [] 0,
         OpenCSGPrim Intersection 2 None [] 0,
         OpenCSGPrim Subtraction 1 (Some (PolySet 1 0)) [] 0]]"
    by (simp add: example_product_def has_geometry_def example_leaf_def example_other_leaf_def
          createCSGPrimitive_def example_env_def)
  from t[THEN conjunct2, THEN conjunct2, THEN conjunct1, THEN mp, OF n, THEN conjunct1]
  have c2: "build_intersection example_env False False example_other_leaf example_state
     = Inr example_state" .
  from t[THEN conjunct2, THEN conjunct2, THEN conjunct2, THEN mp, OF example_env_writes]
  obtain bp tr where
    b: "build_product example_env (example_features False False) False False
                  (example_product [example_leaf 1, example_other_leaf] [example_leaf (1/2)])
                = Inr (bp, tr)"
    and r: "compositor_received (render_product_vbo False None bp)
               = (if 1 < length (primitives bp) then [primitives bp] else [])"
    and p: "map prim_tag (primitives bp) = [(Intersection, 1), (Subtraction, 1)]"
    by (auto simp: example_product_def is_polygon_leaf_def example_leaf_def
          example_other_leaf_def)
  from p have "length (primitives bp) = 2"
    by (metis length_map list.size(3,4) One_nat_def Suc_1 add.commute plus_1_eq_Suc)
  with r have r': "compositor_received (render_product_vbo False None bp) = [primitives bp]"
    by simp
  have c3: "\<exists>bp tr. build_product example_env (example_features False False) False False
                  (example_product [example_leaf 1, example_other_leaf] [example_leaf (1/2)])
                = Inr (bp, tr)
         \<and> compositor_received (render_product_vbo False None bp) = [primitives bp]
         \<and> map prim_tag (primitives bp) = [(Intersection, 1), (Subtraction, 1)]"
    by (rule exI[of _ bp], rule exI[of _ tr], intro conjI) (rule b, rule r', rule p)
  from c1 c2 c3 show ?thesis
    by (intro conjI)
qed

text \<open>
  C2 as stated fails: of the two leaves of this product one has a polygon surface, and in the
  immediate path the compositor receives two primitives.
\<close>

theorem primitive_for_other_geometry:
  "compositor_received (render_product_immediate example_env False None False False
      (example_product [example_leaf 1, example_other_leaf] []))
     = [[OpenCSGPrim Intersection 1 (Some (PolySet 1 0)) [] 0,
         OpenCSGPrim Intersection 2 None [] 0]]
   \<and> as_PolySet (geom (leaf (example_leaf 1))) = Some (PolySet 1 0)
   \<and> as_PolySet (geom (leaf example_other_leaf)) = None"
  by (simp add: compositor_received_def render_product_immediate_def immediate_primitives_def
        render_intersection_def example_product_def example_leaf_def example_other_leaf_def
        createCSGPrimitive_def example_env_def Let_def leaf_colormode_def)






text \<open>
  C5. \<^verbatim>\<open>prepare()\<close> is idempotent: after a call that returned, a second call on the same
  renderer changes nothing and makes no call at all, so it generates no buffer and appends no
  product, primitive or vertex state.
\<close>

theorem prepare_idempotent:
  assumes "prepare e feat r = Inr (r1, t1)"
  shows "prepare e feat r1 = Inr (r1, [])"
proof (cases "ExperimentalVxORenderers feat \<and> vbo_vertex_products r = []")
  case False
  with assms have "r1 = r"
    by (auto simp: prepare_def)
  with False show ?thesis
    by (auto simp: prepare_def)
next
  case True
  obtain ra ta where a: "create_group e feat (root_products r) False False r = Inr (ra, ta)"
    using assms True
    by (cases "create_group e feat (root_products r) False False r") (auto simp: prepare_def)
  obtain rb tb where b: "create_group e feat (background_products ra) False True ra = Inr (rb, tb)"
    using assms True a
    by (cases "create_group e feat (background_products ra) False True ra")
       (auto simp: prepare_def)
  obtain rc tc where c0: "create_group e feat (highlights_products rb) True False rb = Inr (rc, tc)"
    using assms True a b
    by (cases "create_group e feat (highlights_products rb) True False rb")
       (auto simp: prepare_def)
  have rt: "r1 = rc" "t1 = ta @ tb @ tc"
    using assms True a b c0 by (simp_all add: prepare_def)
  have c: "create_group e feat (highlights_products rb) True False rb = Inr (r1, tc)"
    using c0 rt by simp
  note t = rt(2)
  show ?thesis
  proof (cases "vbo_vertex_products r1 = []")
    case False
    then show ?thesis by (simp add: prepare_def)
  next
    case e1: True
    from create_group_result[OF c] e1 have c': "r1 = rb \<and> tc = []" by blast
    then have e2: "vbo_vertex_products rb = []" using e1 by blast
    from create_group_result[OF b] e2 have b': "rb = ra \<and> tb = []" by blast
    then have e3: "vbo_vertex_products ra = []" using e2 by blast
    from create_group_result[OF a] e3 have a': "ra = r \<and> ta = []" by blast
    have "r1 = r" using a' b' c' by blast
    moreover have "t1 = []" using a' b' c' t by simp
    ultimately show ?thesis using assms by blast
  qed
qed

theorem prepare_idempotent_witness:
  "\<exists>r1 t1. prepare example_env (example_features False False) example_renderer = Inr (r1, t1)
     \<and> length (vbo_vertex_products r1) = 1
     \<and> all_vbos r1 = [1]
     \<and> filter is_gen_call t1 = [GL (glGenBuffers 1)]
     \<and> prepare example_env (example_features False False) r1 = Inr (r1, [])"
proof -
  have "\<exists>r1 t1. prepare example_env (example_features False False) example_renderer
                  = Inr (r1, t1)
          \<and> length (vbo_vertex_products r1) = 1
          \<and> all_vbos r1 = [1]
          \<and> filter is_gen_call t1 = [GL (glGenBuffers 1)]"
    by (simp add: prepare_def create_group_def createCSGProducts_def example_renderer_def
          example_features_def build_product_def build_intersection_def Let_def
          example_env_def example_product_def example_leaf_def
          resolve_color_def leaf_colormode_def back_surface_def createVBOPrimitive_def
          set_csgObjectIndex_def example_surface_def unbind_buffers_def)
  then obtain r1 t1 where
    h: "prepare example_env (example_features False False) example_renderer = Inr (r1, t1)"
    and p: "length (vbo_vertex_products r1) = 1" "all_vbos r1 = [1]"
      "filter is_gen_call t1 = [GL (glGenBuffers 1)]"
    by blast
  from prepare_idempotent[OF h] h p show ?thesis
    by blast
qed

text \<open>
  C6 fails on the code. The surface write of these leaves leaves a vertex state of the base
  class, with an empty draw range, at the back of the container. The transparent intersection
  leaf and the subtraction leaf abort on their assertions; the opaque intersection leaf goes
  on without a primitive, since its branch has no assertion.
\<close>

theorem opaque_intersection_without_surface_state:
  "build_product unrecovered_env (example_features False False) False False
      (example_product [example_leaf 1] [])
     = Inr (\<lparr>primitives = [], states = [Some VertexState_default]\<rparr>,
            [Call_addSurfaceData, Call_writeSurface, Call_add_shader_data,
             Call_initializeSize 36, Call_addColor (Color4f 1 0 0 1),
             Call_create_surface (PolySet 1 0) 0 [] (Color4f 1 0 0 1),
             Call_createInterleavedVBOs])
   \<and> build_product unrecovered_env (example_features False False) False False
        (example_product [example_leaf (1/2)] [])
     = Inl (AssertionFailed ''Intersection surface state was nullptr'')
   \<and> build_product unrecovered_env (example_features False False) False False
        (example_product [] [example_leaf 1])
     = Inl (AssertionFailed ''Subtraction surface state was nullptr'')"
  by (simp add: build_product_def build_intersection_def build_subtraction_def Let_def
        unrecovered_env_def example_env_def example_product_def example_leaf_def
        example_features_def resolve_color_def leaf_colormode_def back_surface_def
        VertexState_default_def unbind_buffers_def num_vertices_def)

text \<open>
  C7, as amended. In every frame of the buffer path \<^verbatim>\<open>draw()\<close> is called, in the order of the
  container, on every retained vertex state that is not a null pointer and not a
  \<^verbatim>\<open>VBOShaderVertexState\<close>, and on the \<^verbatim>\<open>VBOShaderVertexState\<close>s too when edges are shown; with
  a selection shader, the draw of a vertex state that carries a leaf index comes right after
  the upload of the encoded index.
\<close>

theorem replay_draws_states:
  "filter is_draw_call (render_product_vbo showedges si vp)
     = map Call_VertexState_draw
         (filter (\<lambda>v. showedges \<or> vs_class v \<noteq> VBOShaderVertexState) (retained (states vp)))
   \<and> (shader_type s = SELECT_RENDERING \<and> vs_class v = OpenCSGVertexState i \<longrightarrow>
        draw_state showedges (Some s) (Some v) = [select_uniform s i, Call_VertexState_draw v])"
proof
  show "filter is_draw_call (render_product_vbo showedges si vp)
     = map Call_VertexState_draw
         (filter (\<lambda>v. showedges \<or> vs_class v \<noteq> VBOShaderVertexState) (retained (states vp)))"
    using states_draws[of showedges si "states vp"]
    by (simp add: render_product_vbo_def split: option.splits)
next
  show "shader_type s = SELECT_RENDERING \<and> vs_class v = OpenCSGVertexState i \<longrightarrow>
        draw_state showedges (Some s) (Some v) = [select_uniform s i, Call_VertexState_draw v]"
    by (simp add: draw_state_def)
qed

theorem replay_draws_states_witness:
  "filter is_draw_call (render_product_vbo False None
       \<lparr>primitives = [], states = [Some example_shader_state, None, Some example_surface]\<rparr>)
     = [Call_VertexState_draw example_surface]
   \<and> draw_state False (Some \<lparr>progid = 2, shader_type = SELECT_RENDERING, select_identifier = 5\<rparr>)
        (Some example_surface)
     = [select_uniform \<lparr>progid = 2, shader_type = SELECT_RENDERING, select_identifier = 5\<rparr> 0,
        Call_VertexState_draw example_surface]"
  using replay_draws_states[where showedges = False and si = None
      and vp = "\<lparr>primitives = [], states = [Some example_shader_state, None, Some example_surface]\<rparr>"
      and s = "\<lparr>progid = 2, shader_type = SELECT_RENDERING, select_identifier = 5\<rparr>"
      and v = example_surface and i = 0]
  by (simp add: retained_def example_shader_state_def example_surface_def VertexState_default_def)

text \<open>
  C7 as stated fails: without edges a retained \<^verbatim>\<open>VBOShaderVertexState\<close> is not drawn.
\<close>

theorem shader_state_not_drawn:
  "render_product_vbo False None \<lparr>primitives = [], states = [Some example_shader_state]\<rparr>
     = [GL (glDepthFunc GL_LEQUAL)]"
  by (simp add: render_product_vbo_def draw_state_def example_shader_state_def)

text \<open>
  C8, as amended. In both render paths the depth function is set back to less-or-equal once
  for every product, as the last call made for the product, whether or not the product was
  composited.
\<close>

theorem depth_reset_every_product:
  "filter (\<lambda>ev. ev = GL (glDepthFunc GL_LEQUAL))
       (render_product_immediate e showedges si hl bg product) = [GL (glDepthFunc GL_LEQUAL)]
   \<and> last (render_product_immediate e showedges si hl bg product) = GL (glDepthFunc GL_LEQUAL)
   \<and> filter (\<lambda>ev. ev = GL (glDepthFunc GL_LEQUAL))
       (render_product_vbo showedges si vp) = [GL (glDepthFunc GL_LEQUAL)]
   \<and> last (render_product_vbo showedges si vp) = GL (glDepthFunc GL_LEQUAL)"
  by (simp only: immediate_depth_reset immediate_last vbo_depth_reset vbo_last)

theorem depth_reset_every_product_witness:
  "filter (\<lambda>ev. ev = GL (glDepthFunc GL_LEQUAL))
       (render_product_immediate example_env False None False False
          (example_product [example_leaf 1] [])) = [GL (glDepthFunc GL_LEQUAL)]
   \<and> last (render_product_immediate example_env False None False False
          (example_product [example_leaf 1] [])) = GL (glDepthFunc GL_LEQUAL)
   \<and> filter (\<lambda>ev. ev = GL (glDepthFunc GL_LEQUAL))
       (render_product_vbo False None \<lparr>primitives = [], states = [Some example_surface]\<rparr>)
       = [GL (glDepthFunc GL_LEQUAL)]
   \<and> last (render_product_vbo False None \<lparr>primitives = [], states = [Some example_surface]\<rparr>)
       = GL (glDepthFunc GL_LEQUAL)"
  by (rule depth_reset_every_product)

text \<open>
  C8 as stated fails: a product without leaves is not composited in either path, and the
  depth function is set all the same.
\<close>

theorem depth_reset_without_compositing:
  "render_product_immediate example_env False None False False (example_product [] [])
     = [GL (glDepthFunc GL_LEQUAL)]
   \<and> immediate_primitives example_env False False (example_product [] []) = []
   \<and> render_product_vbo False None \<lparr>primitives = [], states = []\<rparr>
     = [GL (glDepthFunc GL_LEQUAL)]"
  by (simp add: render_product_immediate_def immediate_primitives_def example_product_def
        render_product_vbo_def)

text \<open>
  C9, as amended. The construction of a product clears the buffer bindings only in the direct
  or the preallocated mode: then its last calls before \<^verbatim>\<open>createInterleavedVBOs\<close> bind the
  element array buffer to zero, when indexed drawing is active, and the array buffer to zero.
  In the other modes the construction itself binds no buffer.
\<close>

theorem unbind_after_construction:
  assumes "build_product e feat hl bg product = Inr (bp, tr)"
  shows "filter is_bind_call tr
           = (if ExperimentalVxORenderersDirect feat \<or> ExperimentalVxORenderersPrealloc feat
              then (if ExperimentalVxORenderersIndexing feat
                    then [GL (glBindBuffer GL_ELEMENT_ARRAY_BUFFER 0)] else [])
                   @ [GL (glBindBuffer GL_ARRAY_BUFFER 0)]
              else [])
         \<and> (\<exists>pre. tr = pre
               @ (if ExperimentalVxORenderersDirect feat \<or> ExperimentalVxORenderersPrealloc feat
                  then [GL (glBindBuffer GL_ARRAY_BUFFER 0)] else [])
               @ [Call_createInterleavedVBOs])"
proof -
  from build_product_calls[OF assms] obtain st1 st2 where
    f1: "foldE (build_intersection e hl bg) (intersections product)
             \<lparr>last_color = default_Color4f e, prims = [], vertex_states = [],
              calls = [Call_addSurfaceData, Call_writeSurface, Call_add_shader_data,
                       Call_initializeSize (num_vertices e hl bg product)]\<rparr> = Inr st1"
    and f2: "foldE (build_subtraction e hl bg) (subtractions product) st1 = Inr st2"
    and tr: "tr = calls st2 @ unbind_buffers feat @ [Call_createInterleavedVBOs]"
    by blast
  have "filter is_bind_call (calls st2) = []"
    using intersections_binds[OF f1] subtractions_binds[OF f2] by simp
  then have a: "filter is_bind_call tr
           = (if ExperimentalVxORenderersDirect feat \<or> ExperimentalVxORenderersPrealloc feat
              then (if ExperimentalVxORenderersIndexing feat
                    then [GL (glBindBuffer GL_ELEMENT_ARRAY_BUFFER 0)] else [])
                   @ [GL (glBindBuffer GL_ARRAY_BUFFER 0)]
              else [])"
    by (simp add: tr unbind_buffers_def)
  have b: "\<exists>pre. tr = pre
               @ (if ExperimentalVxORenderersDirect feat \<or> ExperimentalVxORenderersPrealloc feat
                  then [GL (glBindBuffer GL_ARRAY_BUFFER 0)] else [])
               @ [Call_createInterleavedVBOs]"
  proof (cases "ExperimentalVxORenderersDirect feat \<or> ExperimentalVxORenderersPrealloc feat")
    case True
    then have "tr = (calls st2 @ (if ExperimentalVxORenderersIndexing feat
                    then [GL (glBindBuffer GL_ELEMENT_ARRAY_BUFFER 0)] else []))
                 @ [GL (glBindBuffer GL_ARRAY_BUFFER 0)] @ [Call_createInterleavedVBOs]"
      by (simp add: tr unbind_buffers_def)
    with True show ?thesis by (metis (full_types))
  next
    case False
    then have "tr = calls st2 @ [] @ [Call_createInterleavedVBOs]"
      by (simp add: tr unbind_buffers_def)
    with False show ?thesis by (metis (full_types))
  qed
  from a b show ?thesis ..
qed

theorem unbind_after_construction_witness:
  "\<exists>bp tr. build_product example_env (example_features True True) False False
              (example_product [] []) = Inr (bp, tr)
     \<and> filter is_bind_call tr
         = [GL (glBindBuffer GL_ELEMENT_ARRAY_BUFFER 0), GL (glBindBuffer GL_ARRAY_BUFFER 0)]
     \<and> (\<exists>pre. tr = pre @ [GL (glBindBuffer GL_ARRAY_BUFFER 0), Call_createInterleavedVBOs])"
proof -
  have h: "build_product example_env (example_features True True) False False
              (example_product [] [])
             = Inr (\<lparr>primitives = [], states = []\<rparr>,
                    [Call_addSurfaceData, Call_writeSurface, Call_add_shader_data,
                     Call_initializeSize 0, GL (glBindBuffer GL_ELEMENT_ARRAY_BUFFER 0),
                     GL (glBindBuffer GL_ARRAY_BUFFER 0), Call_createInterleavedVBOs])"
    by (simp add: build_product_def example_product_def example_features_def num_vertices_def
          unbind_buffers_def)
  from unbind_after_construction[OF h] h show ?thesis
    by (simp add: example_features_def)
qed

text \<open>
  C9 as stated fails: with neither the direct nor the preallocated mode, the construction of
  a product ends without a call that clears a binding.
\<close>

theorem no_unbind_without_direct_mode:
  "build_product example_env (example_features False False) False False (example_product [] [])
     = Inr (\<lparr>primitives = [], states = []\<rparr>,
            [Call_addSurfaceData, Call_writeSurface, Call_add_shader_data,
             Call_initializeSize 0, Call_createInterleavedVBOs])"
  by (simp add: build_product_def example_product_def example_features_def num_vertices_def
        unbind_buffers_def)

text \<open>
  C10, as amended. In the construction of a product the colour applied to the surface of a
  leaf (handed to \<^verbatim>\<open>addColor\<close> and to \<^verbatim>\<open>create_surface\<close>) is the resolved colour when the
  resolver overrides; when it does not, it is the colour applied to the leaf before in the
  same product (leaves that are skipped apart, intersections before subtractions), and for
  the first such leaf of the product a default-constructed colour. \<^verbatim>\<open>last_color\<close> changes only
  when the resolver overrides.
\<close>

theorem declined_colour_is_retained:
  assumes "build_product e feat hl bg product = Inr (bp, tr)"
  shows "surface_colors tr
           = retained_colors (default_Color4f e) (leaf_resolutions e hl bg product)
         \<and> added_colors tr = surface_colors tr
         \<and> length (surface_colors tr) = length (leaf_resolutions e hl bg product)
         \<and> (\<forall>i < length (leaf_resolutions e hl bg product).
              surface_colors tr ! i
                = (if fst (leaf_resolutions e hl bg product ! i)
                   then snd (leaf_resolutions e hl bg product ! i)
                   else if i = 0 then default_Color4f e else surface_colors tr ! (i - 1)))"
proof -
  let ?st0 = "\<lparr>last_color = default_Color4f e, prims = [], vertex_states = [],
              calls = [Call_addSurfaceData, Call_writeSurface, Call_add_shader_data,
                       Call_initializeSize (num_vertices e hl bg product)]\<rparr>"
  let ?ri = "map (\<lambda>c. getShaderColor e (leaf_colormode hl bg MATERIAL) (color (leaf c))
                   (default_Color4f e)) (filter is_polygon_leaf (intersections product))"
  let ?rs = "map (\<lambda>c. getShaderColor e (leaf_colormode hl bg CUTOUT) (color (leaf c))
                   (default_Color4f e)) (filter is_polygon_leaf (subtractions product))"
  from build_product_calls[OF assms] obtain st1 st2 where
    f1: "foldE (build_intersection e hl bg) (intersections product) ?st0 = Inr st1"
    and f2: "foldE (build_subtraction e hl bg) (subtractions product) st1 = Inr st2"
    and tr: "tr = calls st2 @ unbind_buffers feat @ [Call_createInterleavedVBOs]"
    by blast
  from leaf_colors[where f = "build_intersection e hl bg" and e = e
      and mode = "leaf_colormode hl bg MATERIAL" and csgmode = "get_csgmode e hl bg None",
      OF build_intersection_shape f1]
  have i: "surface_colors (calls st1) = retained_colors (default_Color4f e) ?ri"
    "added_colors (calls st1) = retained_colors (default_Color4f e) ?ri"
    "last_color st1 = last (default_Color4f e # retained_colors (default_Color4f e) ?ri)"
    by (simp_all add: surface_colors_def added_colors_def)
  from leaf_colors[where f = "build_subtraction e hl bg" and e = e
      and mode = "leaf_colormode hl bg CUTOUT"
      and csgmode = "get_csgmode e hl bg (Some DIFFERENCE)",
      OF build_subtraction_shape f2]
  have s: "surface_colors (calls st2)
             = surface_colors (calls st1) @ retained_colors (last_color st1) ?rs"
    "added_colors (calls st2)
             = added_colors (calls st1) @ retained_colors (last_color st1) ?rs"
    by simp_all
  have u: "surface_colors (unbind_buffers feat) = []"
    "surface_colors [Call_createInterleavedVBOs] = []"
    "added_colors (unbind_buffers feat) = []"
    "added_colors [Call_createInterleavedVBOs] = []"
    by (auto simp: surface_colors_def added_colors_def unbind_buffers_def)
  have a: "surface_colors tr
           = retained_colors (default_Color4f e) (leaf_resolutions e hl bg product)"
    unfolding tr surface_colors_append(1) u s(1) i(1) leaf_resolutions_def
      retained_colors_append i(3)
    by simp
  have b: "added_colors tr = surface_colors tr"
    unfolding tr surface_colors_append u s i by simp
  have c: "length (surface_colors tr) = length (leaf_resolutions e hl bg product)"
    by (simp add: a retained_colors_length)
  have d: "\<forall>i < length (leaf_resolutions e hl bg product).
              surface_colors tr ! i
                = (if fst (leaf_resolutions e hl bg product ! i)
                   then snd (leaf_resolutions e hl bg product ! i)
                   else if i = 0 then default_Color4f e else surface_colors tr ! (i - 1))"
    unfolding a using retained_colors_nth by blast
  from a b c d show ?thesis
    by (intro conjI)
qed

theorem declined_colour_is_retained_witness:
  "\<exists>bp tr. build_product declining_env (example_features False False) False False
              (example_product [example_leaf 1] [example_leaf (1/2)]) = Inr (bp, tr)
     \<and> leaf_resolutions declining_env False False
          (example_product [example_leaf 1] [example_leaf (1/2)])
         = [(True, Color4f 1 0 0 1), (False, Color4f (-1) (-1) (-1) 1)]
     \<and> surface_colors tr = [Color4f 1 0 0 1, Color4f 1 0 0 1]
     \<and> added_colors tr = [Color4f 1 0 0 1, Color4f 1 0 0 1]"
proof -
  have "\<exists>bp tr. build_product declining_env (example_features False False) False False
              (example_product [example_leaf 1] [example_leaf (1/2)]) = Inr (bp, tr)"
    by (simp add: build_product_def build_intersection_def build_subtraction_def Let_def
          declining_env_def example_env_def example_product_def example_leaf_def
          resolve_color_def leaf_colormode_def back_surface_def createVBOPrimitive_def
          set_csgObjectIndex_def example_surface_def)
  then obtain bp tr where
    h: "build_product declining_env (example_features False False) False False
              (example_product [example_leaf 1] [example_leaf (1/2)]) = Inr (bp, tr)"
    by blast
  have r: "leaf_resolutions declining_env False False
          (example_product [example_leaf 1] [example_leaf (1/2)])
         = [(True, Color4f 1 0 0 1), (False, Color4f (-1) (-1) (-1) 1)]"
    by (simp add: leaf_resolutions_def is_polygon_leaf_def example_product_def example_leaf_def
          declining_env_def example_env_def leaf_colormode_def)
  from declined_colour_is_retained[OF h] h r show ?thesis
    by (simp add: declining_env_def example_env_def)
qed

text \<open>
  C10 as stated fails: the only leaf of this product is a subtraction leaf, the resolver does
  not override its colour, and the colour applied is the default-constructed one; there is no
  earlier leaf.
\<close>

theorem first_leaf_has_no_earlier_colour:
  "surface_colors (product_calls
      (build_product declining_env (example_features False False) False False
         (example_product [] [example_leaf 1])))
     = [default_Color4f declining_env]
   \<and> getShaderColor declining_env (leaf_colormode False False CUTOUT)
        (color (leaf (example_leaf 1))) (default_Color4f declining_env)
     = (False, default_Color4f declining_env)"
  by (simp add: build_product_def build_subtraction_def Let_def
        declining_env_def example_env_def example_product_def example_leaf_def
        resolve_color_def leaf_colormode_def back_surface_def createVBOPrimitive_def
        set_csgObjectIndex_def example_surface_def product_calls_def surface_colors_def
        cull_front_state_def VertexState_default_def unbind_buffers_def example_features_def)

end
